theory Spec2Isabelle
  imports Complex_Main "HOL-Library.AList"
begin

section \<open>Python values used by the voice sampler\<close>

text \<open>
  A Python float is a finite double, an infinity or a NaN. Every finite double is a
  rational number, so the finite values are modelled by \<open>rat\<close> (a superset of the
  doubles); the program only compares and stores floats, it never does arithmetic on
  them. Comparisons with a NaN are false, as in Python.
\<close>

datatype pyfloat = NegInf | Fin rat | PosInf | NaN

fun py_lt :: "pyfloat \<Rightarrow> pyfloat \<Rightarrow> bool" where
  "py_lt NaN y = False"
| "py_lt x NaN = False"
| "py_lt (Fin a) (Fin b) = (a < b)"
| "py_lt x NegInf = False"
| "py_lt NegInf y = True"
| "py_lt PosInf y = False"
| "py_lt (Fin a) PosInf = True"

text \<open>
  Python's two-argument \<open>min(a, b)\<close> keeps \<open>a\<close> unless \<open>b < a\<close>, and \<open>max(a, b)\<close>
  keeps \<open>a\<close> unless \<open>b > a\<close>.
\<close>

definition py_min :: "pyfloat \<Rightarrow> pyfloat \<Rightarrow> pyfloat" where
  "py_min a b = (if py_lt b a then b else a)"

definition py_max :: "pyfloat \<Rightarrow> pyfloat \<Rightarrow> pyfloat" where
  "py_max a b = (if py_lt a b then b else a)"

text \<open>The expression \<open>max(0.0, min(1.0, x))\<close> of the edit-settings branch of main.py.\<close>

definition clamp01 :: "pyfloat \<Rightarrow> pyfloat" where
  "clamp01 x = py_max (Fin 0) (py_min (Fin 1) x)"

text \<open>
  The clamp as the specification words it, for comparison: a value below the lower bound
  becomes the lower bound, a value above the upper bound becomes the upper bound, any
  other value is kept.
\<close>

definition clamp_spec :: "pyfloat \<Rightarrow> pyfloat \<Rightarrow> pyfloat \<Rightarrow> pyfloat" where
  "clamp_spec lo hi x = (if py_lt x lo then lo else if py_lt hi x then hi else x)"

datatype pyval = PFloat pyfloat | PBool bool

text \<open>A Python dict with string keys: an association list, updated in place.\<close>

type_synonym pydict = "(string \<times> pyval) list"

definition dget :: "pydict \<Rightarrow> string \<Rightarrow> pyval \<Rightarrow> pyval" where
  "dget d k dflt = (case map_of d k of Some v \<Rightarrow> v | None \<Rightarrow> dflt)"

subsection \<open>Strings\<close>

text \<open>
  Strings are byte strings here. \<open>str.strip()\<close> and \<open>str.lower()\<close> are modelled for
  ASCII input: \<open>strip\<close> removes the ASCII whitespace characters (codes 9 to 13, 28 to
  32) at both ends, \<open>lower\<close> maps A-Z to a-z. \<open>str.isdigit()\<close> and \<open>int()\<close> are not
  fixed here but taken from the environment (see \<open>env\<close> below), since \<open>int()\<close> raises
  on strings that \<open>isdigit()\<close> accepts: on digits outside ASCII such as the superscript
  two, and on more digits than the interpreter's limit for the conversion (4300 by
  default). \<open>ascii_isdigit\<close> and \<open>ascii_int\<close> are the two on ASCII strings, with that
  limit; the examples use them.
\<close>

definition is_space :: "char \<Rightarrow> bool" where
  "is_space c = (let n = (of_char c :: nat) in (9 \<le> n \<and> n \<le> 13) \<or> (28 \<le> n \<and> n \<le> 32))"

definition strip :: "string \<Rightarrow> string" where
  "strip s = rev (dropWhile is_space (rev (dropWhile is_space s)))"

definition lower_char :: "char \<Rightarrow> char" where
  "lower_char c =
     (case map_of (zip ''ABCDEFGHIJKLMNOPQRSTUVWXYZ'' ''abcdefghijklmnopqrstuvwxyz'') c of
        Some d \<Rightarrow> d
      | None \<Rightarrow> c)"

definition lower :: "string \<Rightarrow> string" where
  "lower s = map lower_char s"

definition is_digit :: "char \<Rightarrow> bool" where
  "is_digit c = (let n = (of_char c :: nat) in 48 \<le> n \<and> n \<le> 57)"

definition ascii_isdigit :: "string \<Rightarrow> bool" where
  "ascii_isdigit s = (if s = [] then False else list_all is_digit s)"

definition int_of_digits :: "string \<Rightarrow> int" where
  "int_of_digits s = foldl (\<lambda>a c. 10 * a + (int (of_char c) - 48)) 0 s"

text \<open>
  \<open>int(s)\<close> on a string of ASCII digits: ValueError (\<open>None\<close>) beyond 4300 digits, the
  number in base ten otherwise. It is applied to strings that \<open>isdigit()\<close> accepts only.
\<close>

definition ascii_int :: "string \<Rightarrow> int option" where
  "ascii_int s =
     (if \<not> ascii_isdigit s then None
      else if 4300 < length s then None
      else Some (int_of_digits s))"

text \<open>\<open>" ".join(xs)\<close>\<close>

fun join_space :: "string list \<Rightarrow> string" where
  "join_space [] = []"
| "join_space [x] = x"
| "join_space (x # y # ys) = x @ '' '' @ join_space (y # ys)"

section \<open>The terminal front-end (main.py)\<close>

type_synonym bytes = "char list"

record voice =
  voice_id :: string
  name :: string
  category :: "string option"

text \<open>
  One call of \<open>client.text_to_speech.convert\<close>: the text, the voice id and the
  voice settings built by \<open>generate_audio\<close>; the model id is a constant.
\<close>

type_synonym tts_call = "string \<times> string \<times> pydict"

datatype platform = Darwin | Linux | Win32 | OtherPlatform

text \<open>
  What the program cannot decide itself is the environment's: Python's \<open>float()\<close> and
  \<open>int()\<close> on a string (\<open>None\<close> is their ValueError) and \<open>str.isdigit()\<close>, the
  answer of the provider to the k-th synthesis call and to the k-th catalog call
  (\<open>Inl\<close> is the exception's text), the platform, whether the k-th run of the system's
  audio player raises, and whether creating and writing the file of a given name in the
  recordings directory raises (\<open>Some\<close> is the text of the OSError, as for a name with a
  path separator into a directory that does not exist; nothing is written then).
\<close>

record env =
  float_of :: "string \<Rightarrow> pyfloat option"
  isdigit :: "string \<Rightarrow> bool"
  int_of :: "string \<Rightarrow> int option"
  convert :: "nat \<Rightarrow> tts_call \<Rightarrow> string + bytes"
  get_all :: "nat \<Rightarrow> string + voice list"
  platform :: platform
  player :: "nat \<Rightarrow> string option"
  write_file :: "string \<Rightarrow> string option"

text \<open>Every \<open>print\<close> of main.py, by its place in the source.\<close>

datatype msg =
    MsgNoApiKey
  | MsgAudioSavedTo
  | MsgPlaybackUnsupported
  | MsgVoiceList "(nat \<times> string \<times> string \<times> string) list"
  | MsgVoiceTable "(nat \<times> string \<times> string \<times> bool) list"
  | MsgEnterNumber
  | MsgSelected string
  | MsgInvalidNumber
  | MsgGenerating string string pyval pyval pyval
  | MsgSettings pyval pyval pyval
  | MsgNoPhraseProvided
  | MsgPlaying nat
  | MsgError string
  | MsgOptions
  | MsgRegenerating
  | MsgPlayingAgain
  | MsgSaved string
  | MsgNoPhraseEntered
  | MsgRegeneratingVoice
  | MsgEnterNewValues
  | MsgRegeneratingSettings
  | MsgGoodbye
  | MsgInvalidChoice

datatype pyerr =
    EOFError | ValueError | KeyError | FileNotFoundError | OSError string
  | ProviderError string | PlayerError string

text \<open>
  The local variables of \<open>main\<close> and the files it writes: \<open>audio_file\<close> is the content
  of the temporary output.mp3 when it exists, \<open>recordings\<close> the recordings directory
  (file name to content). \<open>tts_calls\<close>, \<open>catalog_calls\<close> and \<open>plays\<close> record the calls
  made to the provider and to the audio player, \<open>out\<close> what was printed.
\<close>

record session =
  phrase :: string
  current_voice :: string
  settings :: pydict
  generation_count :: nat
  audio_file :: "bytes option"
  recordings :: "(string \<times> bytes) list"
  tts_calls :: "tts_call list"
  catalog_calls :: nat
  plays :: nat
  out :: "msg list"

definition emit :: "msg \<Rightarrow> session \<Rightarrow> session" where
  "emit m s = s\<lparr>out := out s @ [m]\<rparr>"

definition default_voice :: string where
  "default_voice = ''bIHbv24MWmeRgasZH58o''"

definition default_settings :: pydict where
  "default_settings =
     [(''stability'', PFloat (Fin (1/2))), (''similarity_boost'', PFloat (Fin (3/4))),
      (''style'', PFloat (Fin 0)), (''use_speaker_boost'', PBool True)]"

definition get_voices :: "env \<Rightarrow> session \<Rightarrow> (string + voice list) \<times> session" where
  "get_voices env s = (get_all env (catalog_calls s), s\<lparr>catalog_calls := catalog_calls s + 1\<rparr>)"

definition category_of :: "voice \<Rightarrow> string" where
  "category_of v = (case category v of Some c \<Rightarrow> c | None \<Rightarrow> ''unknown'')"

definition play_audio :: "env \<Rightarrow> session \<Rightarrow> string option \<times> session" where
  "play_audio env s =
     (case platform env of
        OtherPlatform \<Rightarrow> (None, emit MsgPlaybackUnsupported (emit MsgAudioSavedTo s))
      | _ \<Rightarrow> (player env (plays s), s\<lparr>plays := plays s + 1\<rparr>))"

text \<open>The \<open>VoiceSettings\<close> that \<open>generate_audio\<close> of main.py builds from the settings.\<close>

definition voice_settings :: "pydict \<Rightarrow> pydict" where
  "voice_settings st =
     [(''stability'', dget st ''stability'' (PFloat (Fin (1/2)))),
      (''similarity_boost'', dget st ''similarity_boost'' (PFloat (Fin (3/4)))),
      (''style'', dget st ''style'' (PFloat (Fin 0))),
      (''use_speaker_boost'', dget st ''use_speaker_boost'' (PBool True))]"

definition generate_audio :: "env \<Rightarrow> string \<Rightarrow> string \<Rightarrow> pydict \<Rightarrow> session \<Rightarrow> (string + bytes) \<times> session" where
  "generate_audio env text vid st s =
     (let s1 = emit (MsgGenerating text vid (dget st ''stability'' (PFloat (Fin (1/2))))
                       (dget st ''similarity_boost'' (PFloat (Fin (3/4))))
                       (dget st ''style'' (PFloat (Fin 0)))) s;
          call = (text, vid, voice_settings st)
      in (convert env (length (tts_calls s1)) call, s1\<lparr>tts_calls := tts_calls s1 @ [call]\<rparr>))"

text \<open>
  The body of the \<open>try\<close> of the main loop: synthesize, write the temporary file,
  announce and play. The result is the text of the exception caught by the
  \<open>except\<close>, if any.
\<close>

definition attempt :: "env \<Rightarrow> session \<Rightarrow> string option \<times> session" where
  "attempt env s =
     (case generate_audio env (phrase s) (current_voice s) (settings s) s of
        (Inl e, s1) \<Rightarrow> (Some e, s1)
      | (Inr audio_data, s1) \<Rightarrow>
          (let s2 = s1\<lparr>audio_file := Some audio_data\<rparr>
           in play_audio env (emit (MsgPlaying (generation_count s2)) s2)))"

text \<open>The clean-up at the end of \<open>main\<close> and in the quit branch: the temporary file is removed.\<close>

definition cleanup :: "session \<Rightarrow> session" where
  "cleanup s = s\<lparr>audio_file := None\<rparr>"

datatype outcome = Exited nat session | Returned session | Raised pyerr session

datatype mode = Generate | Menu

text \<open>
  One step of the program either ends it or goes on, at the head of the outer loop
  (\<open>Generate\<close>) or at the prompt of the inner loop (\<open>Menu\<close>), with the replies that
  \<open>input()\<close> has not read yet.
\<close>

datatype result = Continue mode session "string list" | Done outcome

definition generate_step :: "env \<Rightarrow> session \<Rightarrow> string list \<Rightarrow> result" where
  "generate_step env s ins =
     (let s1 = s\<lparr>generation_count := generation_count s + 1\<rparr> in
      case attempt env s1 of
        (None, s2) \<Rightarrow> Continue Menu (emit MsgOptions s2) ins
      | (Some e, s2) \<Rightarrow>
          (let s3 = emit (MsgError e) s2 in
           case ins of
             [] \<Rightarrow> Done (Raised EOFError s3)
           | r # rest \<Rightarrow>
               if lower (strip r) = ''y'' then Continue Generate s3 rest
               else Done (Returned (cleanup s3))))"

definition cmd_play :: "env \<Rightarrow> session \<Rightarrow> string list \<Rightarrow> result" where
  "cmd_play env s rest =
     (case play_audio env (emit MsgPlayingAgain s) of
        (None, s1) \<Rightarrow> Continue Menu s1 rest
      | (Some e, s1) \<Rightarrow> Done (Raised (PlayerError e) s1))"

text \<open>
  The save branch. The name typed is the path of the new file below the recordings
  directory; neither \<open>open()\<close> is inside a \<open>try\<close>, so an OSError ends the program.
\<close>

definition cmd_save :: "env \<Rightarrow> session \<Rightarrow> string list \<Rightarrow> result" where
  "cmd_save env s ins =
     (case ins of
        [] \<Rightarrow> Done (Raised EOFError s)
      | r # rest \<Rightarrow>
          (let save_name = strip r in
           if save_name \<noteq> [] then
             (case audio_file s of
                None \<Rightarrow> Done (Raised FileNotFoundError s)
              | Some b \<Rightarrow>
                  (case write_file env (save_name @ ''.mp3'') of
                     Some e \<Rightarrow> Done (Raised (OSError e) s)
                   | None \<Rightarrow>
                       Continue Menu
                         (emit (MsgSaved (save_name @ ''.mp3''))
                            (s\<lparr>recordings := AList.update (save_name @ ''.mp3'') b (recordings s)\<rparr>))
                         rest))
           else Continue Menu s rest))"

definition cmd_new_phrase :: "session \<Rightarrow> string list \<Rightarrow> result" where
  "cmd_new_phrase s ins =
     (case ins of
        [] \<Rightarrow> Done (Raised EOFError s)
      | r # rest \<Rightarrow>
          (let s1 = s\<lparr>phrase := strip r\<rparr> in
           if phrase s1 \<noteq> [] then Continue Generate (s1\<lparr>generation_count := 0\<rparr>) rest
           else Continue Menu (emit MsgNoPhraseEntered s1) rest))"

definition voice_table :: "voice list \<Rightarrow> string \<Rightarrow> (nat \<times> string \<times> string \<times> bool) list" where
  "voice_table voices cur =
     map (\<lambda>(i, v). (i, name v, category_of v, voice_id v = cur)) (zip [1..<Suc (length voices)] voices)"

definition select_voice ::
  "env \<Rightarrow> string \<Rightarrow> session \<Rightarrow> string list \<Rightarrow> (pyerr \<times> session) + (string \<times> session \<times> string list)" where
  "select_voice env cur s ins =
     (case get_voices env s of
        (Inl e, s1) \<Rightarrow> Inl (ProviderError e, s1)
      | (Inr voices, s1) \<Rightarrow>
          (let s2 = emit MsgEnterNumber (emit (MsgVoiceTable (voice_table voices cur)) s1) in
           case ins of
             [] \<Rightarrow> Inl (EOFError, s2)
           | r # rest \<Rightarrow>
               (let choice = strip r in
                if choice \<noteq> [] \<and> isdigit env choice then
                  (case int_of env choice of
                     None \<Rightarrow> Inl (ValueError, s2)
                   | Some n \<Rightarrow>
                       (let idx = n - 1 in
                        if 0 \<le> idx \<and> idx < int (length voices) then
                          (let selected = voices ! nat idx
                           in Inr (voice_id selected, emit (MsgSelected (name selected)) s2, rest))
                        else Inr (cur, emit MsgInvalidNumber s2, rest)))
                else Inr (cur, s2, rest))))"

definition cmd_voice :: "env \<Rightarrow> session \<Rightarrow> string list \<Rightarrow> result" where
  "cmd_voice env s ins =
     (case select_voice env (current_voice s) s ins of
        Inl (e, s1) \<Rightarrow> Done (Raised e s1)
      | Inr (v, s1, rest) \<Rightarrow> Continue Generate (emit MsgRegeneratingVoice (s1\<lparr>current_voice := v\<rparr>)) rest)"

definition print_settings :: "session \<Rightarrow> session" where
  "print_settings s =
     emit (MsgSettings (dget (settings s) ''stability'' (PFloat (Fin (1/2))))
             (dget (settings s) ''similarity_boost'' (PFloat (Fin (3/4))))
             (dget (settings s) ''style'' (PFloat (Fin 0)))) s"

text \<open>
  One prompt of the edit-settings branch: the prompt reads \<open>settings[key]\<close>, an empty
  reply keeps the value, any other reply goes through \<open>float()\<close> and the clamp.
\<close>

definition edit_field ::
  "env \<Rightarrow> string \<Rightarrow> session \<Rightarrow> string list \<Rightarrow> (pyerr \<times> session) + (session \<times> string list)" where
  "edit_field env key s ins =
     (case map_of (settings s) key of
        None \<Rightarrow> Inl (KeyError, s)
      | Some cur \<Rightarrow>
          (case ins of
             [] \<Rightarrow> Inl (EOFError, s)
           | r # rest \<Rightarrow>
               (let val = strip r in
                if val \<noteq> [] then
                  (case float_of env val of
                     None \<Rightarrow> Inl (ValueError, s)
                   | Some x \<Rightarrow>
                       Inr (s\<lparr>settings := AList.update key (PFloat (clamp01 x)) (settings s)\<rparr>, rest))
                else Inr (s, rest))))"

definition edit_settings ::
  "env \<Rightarrow> session \<Rightarrow> string list \<Rightarrow> (pyerr \<times> session) + (session \<times> string list)" where
  "edit_settings env s ins =
     (case edit_field env ''stability'' (emit MsgEnterNewValues (print_settings s)) ins of
        Inl err \<Rightarrow> Inl err
      | Inr (s1, ins1) \<Rightarrow>
          (case edit_field env ''similarity_boost'' s1 ins1 of
             Inl err \<Rightarrow> Inl err
           | Inr (s2, ins2) \<Rightarrow>
               (case edit_field env ''style'' s2 ins2 of
                  Inl err \<Rightarrow> Inl err
                | Inr (s3, ins3) \<Rightarrow> Inr (emit MsgRegeneratingSettings (print_settings s3), ins3))))"

definition cmd_edit :: "env \<Rightarrow> session \<Rightarrow> string list \<Rightarrow> result" where
  "cmd_edit env s ins =
     (case edit_settings env s ins of
        Inl (e, s1) \<Rightarrow> Done (Raised e s1)
      | Inr (s1, rest) \<Rightarrow> Continue Generate s1 rest)"

definition menu_step :: "env \<Rightarrow> session \<Rightarrow> string list \<Rightarrow> result" where
  "menu_step env s ins =
     (case ins of
        [] \<Rightarrow> Done (Raised EOFError s)
      | c # rest \<Rightarrow>
          (let choice = lower (strip c) in
           if choice = ''r'' then Continue Generate (emit MsgRegenerating s) rest
           else if choice = ''p'' then cmd_play env s rest
           else if choice = ''s'' then cmd_save env s rest
           else if choice = ''n'' then cmd_new_phrase s rest
           else if choice = ''v'' then cmd_voice env s rest
           else if choice = ''e'' then cmd_edit env s rest
           else if choice = ''q'' then Done (Exited 0 (cleanup (emit MsgGoodbye s)))
           else Continue Menu (emit MsgInvalidChoice s) rest))"

definition step :: "env \<Rightarrow> mode \<Rightarrow> session \<Rightarrow> string list \<Rightarrow> result" where
  "step env m s ins = (case m of Generate \<Rightarrow> generate_step env s ins | Menu \<Rightarrow> menu_step env s ins)"

subsection \<open>The loop\<close>

text \<open>
  Every step that goes on either moves from the head of the loop to the menu or reads
  at least one reply, so the program ends on every finite list of replies (its last
  \<open>input()\<close> then raises EOFError).
\<close>

lemma edit_field_consumes:
  "edit_field env key s ins = Inr (s', rest) \<Longrightarrow> length ins = Suc (length rest)"
  by (auto simp: edit_field_def Let_def split: option.splits list.splits if_splits)

lemma edit_settings_consumes:
  "edit_settings env s ins = Inr (s', rest) \<Longrightarrow> length ins = length rest + 3"
  by (auto simp: edit_settings_def split: sum.splits prod.splits dest!: edit_field_consumes)

lemma select_voice_consumes:
  "select_voice env cur s ins = Inr (v, s', rest) \<Longrightarrow> length ins = Suc (length rest)"
  by (auto simp: select_voice_def Let_def
      split: sum.splits prod.splits list.splits if_splits option.splits)

lemma generate_step_consumes:
  "generate_step env s ins = Continue m' s' ins' \<Longrightarrow>
     (m' = Menu \<and> ins' = ins) \<or> length ins' < length ins"
  by (auto simp: generate_step_def Let_def split: prod.splits option.splits list.splits if_splits)

lemma menu_step_consumes:
  "menu_step env s ins = Continue m' s' ins' \<Longrightarrow> length ins' < length ins"
  by (auto simp: menu_step_def Let_def cmd_play_def cmd_save_def cmd_new_phrase_def
        cmd_voice_def cmd_edit_def
      split: prod.splits option.splits list.splits if_splits sum.splits
      dest!: edit_settings_consumes select_voice_consumes)

function run :: "env \<Rightarrow> mode \<Rightarrow> session \<Rightarrow> string list \<Rightarrow> outcome" where
  "run env m s ins =
     (case step env m s ins of
        Done res \<Rightarrow> res
      | Continue m' s' ins' \<Rightarrow> run env m' s' ins')"
  by pat_completeness auto
termination
proof (relation "measure (\<lambda>(env, m, s, ins). 2 * length ins + (case m of Generate \<Rightarrow> 1 | Menu \<Rightarrow> 0))")
  show "wf (measure (\<lambda>(env, m, s, ins). 2 * length ins + (case m of Generate \<Rightarrow> 1 | Menu \<Rightarrow> 0)))"
    by simp
next
  fix env m s ins m' s' ins'
  assume "step env m s ins = Continue m' s' ins'"
  then show "((env, m', s', ins'), (env, m, s, ins))
      \<in> measure (\<lambda>(env, m, s, ins). 2 * length ins + (case m of Generate \<Rightarrow> 1 | Menu \<Rightarrow> 0))"
    by (cases m; cases m') (auto simp: step_def dest: generate_step_consumes menu_step_consumes)
qed

declare run.simps [simp del]

definition initial_session :: "(string \<times> bytes) list \<Rightarrow> session" where
  "initial_session recs =
     \<lparr>phrase = [], current_voice = default_voice, settings = default_settings,
      generation_count = 0, audio_file = None, recordings = recs, tts_calls = [],
      catalog_calls = 0, plays = 0, out = []\<rparr>"

definition list_voices :: "env \<Rightarrow> session \<Rightarrow> outcome" where
  "list_voices env s =
     (case get_voices env s of
        (Inl e, s1) \<Rightarrow> Raised (ProviderError e) s1
      | (Inr voices, s1) \<Rightarrow>
          Exited 0
            (emit (MsgVoiceList
                     (map (\<lambda>(i, v). (i, name v, voice_id v, category_of v))
                        (zip [1..<Suc (length voices)] voices))) s1))"

text \<open>
  \<open>main\<close>: the API key of the environment, \<open>sys.argv\<close>, the recordings directory as
  it is found, and the replies that the user will type.
\<close>

definition main :: "env \<Rightarrow> string option \<Rightarrow> string list \<Rightarrow> (string \<times> bytes) list \<Rightarrow> string list \<Rightarrow> outcome" where
  "main env api_key argv recs ins =
     (let s0 = initial_session recs in
      case api_key of
        None \<Rightarrow> Exited 1 (emit MsgNoApiKey s0)
      | Some k \<Rightarrow>
          if k = [] then Exited 1 (emit MsgNoApiKey s0)
          else if length argv > 1 \<and> argv ! 1 = ''--list-voices'' then list_voices env s0
          else if length argv > 1 then run env Generate (s0\<lparr>phrase := join_space (tl argv)\<rparr>) ins
          else
            (case ins of
               [] \<Rightarrow> Raised EOFError s0
             | r # rest \<Rightarrow>
                 if strip r = [] then Exited 1 (emit MsgNoPhraseProvided (s0\<lparr>phrase := strip r\<rparr>))
                 else run env Generate (s0\<lparr>phrase := strip r\<rparr>) rest))"

section \<open>The web front-end (app.py)\<close>

text \<open>
  The script runs from top to bottom on every interaction. One run reads the values of
  the widgets and works on what persists between runs: \<open>st.session_state\<close>, the
  recordings directory and the cache that \<open>st.cache_data(ttl=300)\<close> keeps for
  \<open>get_voices\<close> (the time it was filled and the value), with the provider calls made.
\<close>

datatype ssval = SBytes bytes | SStr string

datatype app_msg = AppNoApiKey | WarnEnterPhrase | ErrGenerating string | SavedTo string | WarnEnterFilename

record widgets =
  stability_slider :: pyfloat
  similarity_slider :: pyfloat
  style_slider :: pyfloat
  speed_slider :: pyfloat
  refresh_btn :: bool
  selected_voice :: "string option"
  phrase_text :: string
  generate_btn :: bool
  regenerate_btn :: bool
  save_name_text :: string
  save_btn :: bool

record app_state =
  session_state :: "(string \<times> ssval) list"
  app_recordings :: "(string \<times> bytes) list"
  voices_cache :: "(rat \<times> (string \<times> string \<times> string) list) option"
  app_tts_calls :: "tts_call list"
  app_catalog_calls :: nat
  app_out :: "app_msg list"

definition app_emit :: "app_msg \<Rightarrow> app_state \<Rightarrow> app_state" where
  "app_emit m st = st\<lparr>app_out := app_out st @ [m]\<rparr>"

text \<open>The body of \<open>get_voices\<close> of app.py: one provider call.\<close>

definition fetch_voices :: "env \<Rightarrow> rat \<Rightarrow> app_state \<Rightarrow> (string + (string \<times> string \<times> string) list) \<times> app_state" where
  "fetch_voices env now st =
     (case get_all env (app_catalog_calls st) of
        Inl e \<Rightarrow> (Inl e, st\<lparr>app_catalog_calls := app_catalog_calls st + 1\<rparr>)
      | Inr voices \<Rightarrow>
          (let vs = map (\<lambda>v. (voice_id v, name v, category_of v)) voices
           in (Inr vs, st\<lparr>app_catalog_calls := app_catalog_calls st + 1, voices_cache := Some (now, vs)\<rparr>)))"

text \<open>
  \<open>get_voices\<close> behind its decorator \<open>st.cache_data(ttl=300)\<close>: an entry younger
  than 300 seconds is returned without running the body; \<open>get_voices.clear()\<close> empties
  the cache.
\<close>

definition cached_get_voices :: "env \<Rightarrow> rat \<Rightarrow> app_state \<Rightarrow> (string + (string \<times> string \<times> string) list) \<times> app_state" where
  "cached_get_voices env now st =
     (case voices_cache st of
        None \<Rightarrow> fetch_voices env now st
      | Some (t, vs) \<Rightarrow> if now < t + 300 then (Inr vs, st) else fetch_voices env now st)"

definition clear_voices_cache :: "app_state \<Rightarrow> app_state" where
  "clear_voices_cache st = st\<lparr>voices_cache := None\<rparr>"

definition voice_options :: "(string \<times> string \<times> string) list \<Rightarrow> (string \<times> string) list" where
  "voice_options voices =
     foldl (\<lambda>d (vid, nm, cat). AList.update (nm @ '' ('' @ cat @ '')'') vid d) [] voices"

definition app_generate_audio :: "env \<Rightarrow> string \<Rightarrow> string \<Rightarrow> pydict \<Rightarrow> app_state \<Rightarrow> (string + bytes) \<times> app_state" where
  "app_generate_audio env text vid st_dict st =
     (case (map_of st_dict ''stability'', map_of st_dict ''similarity'',
            map_of st_dict ''style'', map_of st_dict ''speed'') of
        (Some a, Some b, Some c, Some d) \<Rightarrow>
          (let call = (text, vid,
                 [(''stability'', a), (''similarity_boost'', b), (''style'', c),
                  (''use_speaker_boost'', PBool True), (''speed'', d)])
           in (convert env (length (app_tts_calls st)) call,
               st\<lparr>app_tts_calls := app_tts_calls st @ [call]\<rparr>))
      | _ \<Rightarrow> (Inl ''KeyError'', st))"

text \<open>
  \<open>save_recording\<close>: the file name is the path of the new file below the recordings
  directory; \<open>write_bytes\<close> raises an OSError where the file cannot be created.
\<close>

definition save_recording :: "env \<Rightarrow> bytes \<Rightarrow> string \<Rightarrow> app_state \<Rightarrow> pyerr + (string \<times> app_state)" where
  "save_recording env audio_data filename st =
     (case write_file env (filename @ ''.mp3'') of
        Some e \<Rightarrow> Inl (OSError e)
      | None \<Rightarrow>
          Inr (filename @ ''.mp3'',
               st\<lparr>app_recordings := AList.update (filename @ ''.mp3'') audio_data (app_recordings st)\<rparr>))"

text \<open>The block under \<open>if generate_btn or regenerate_btn\<close>.\<close>

definition generate_handler :: "env \<Rightarrow> widgets \<Rightarrow> (string \<times> string) list \<Rightarrow> app_state \<Rightarrow> pyerr + app_state" where
  "generate_handler env w opts st =
     (if generate_btn w \<or> regenerate_btn w then
        (if strip (phrase_text w) = [] then Inr (app_emit WarnEnterPhrase st)
         else
           (case (case selected_voice w of None \<Rightarrow> None | Some lbl \<Rightarrow> map_of opts lbl) of
              None \<Rightarrow> Inl KeyError
            | Some vid \<Rightarrow>
                (let st_dict =
                       [(''stability'', PFloat (stability_slider w)),
                        (''similarity'', PFloat (similarity_slider w)),
                        (''style'', PFloat (style_slider w)),
                        (''speed'', PFloat (speed_slider w))]
                 in case app_generate_audio env (strip (phrase_text w)) vid st_dict st of
                      (Inr audio_data, st1) \<Rightarrow>
                        Inr (st1\<lparr>session_state :=
                               AList.update ''last_phrase'' (SStr (strip (phrase_text w)))
                                 (AList.update ''audio_data'' (SBytes audio_data) (session_state st1))\<rparr>)
                    | (Inl e, st1) \<Rightarrow> Inr (app_emit (ErrGenerating e) st1))))
      else Inr st)"

text \<open>The block under \<open>if "audio_data" in st.session_state\<close>, as far as it changes anything.\<close>

definition save_handler :: "env \<Rightarrow> widgets \<Rightarrow> app_state \<Rightarrow> pyerr + app_state" where
  "save_handler env w st =
     (case map_of (session_state st) ''audio_data'' of
        Some (SBytes audio_data) \<Rightarrow>
          (if save_btn w then
             (if strip (save_name_text w) \<noteq> [] then
                (case save_recording env audio_data (strip (save_name_text w)) st of
                   Inl err \<Rightarrow> Inl err
                 | Inr (save_path, st1) \<Rightarrow> Inr (app_emit (SavedTo save_path) st1))
              else Inr (app_emit WarnEnterFilename st))
           else Inr st)
      | _ \<Rightarrow> Inr st)"

datatype app_result = Finished app_state | Stopped app_state | Rerun app_state | Aborted pyerr app_state

definition app_run :: "env \<Rightarrow> string option \<Rightarrow> rat \<Rightarrow> widgets \<Rightarrow> app_state \<Rightarrow> app_result" where
  "app_run env api_key now w st0 =
     (let st = st0\<lparr>app_out := []\<rparr> in
      if (case api_key of None \<Rightarrow> True | Some k \<Rightarrow> k = []) then Stopped (app_emit AppNoApiKey st)
      else
        (case cached_get_voices env now st of
           (Inl e, st1) \<Rightarrow> Aborted (ProviderError e) st1
         | (Inr voices, st1) \<Rightarrow>
             if refresh_btn w then Rerun (clear_voices_cache st1)
             else
               (case generate_handler env w (voice_options voices) st1 of
                  Inl err \<Rightarrow> Aborted err st1
                | Inr st2 \<Rightarrow>
                    (case save_handler env w st2 of
                       Inl err \<Rightarrow> Aborted err st2
                     | Inr st3 \<Rightarrow> Finished st3))))"

section \<open>Vocabulary of the properties\<close>

fun outcome_session :: "outcome \<Rightarrow> session" where
  "outcome_session (Exited n s) = s"
| "outcome_session (Returned s) = s"
| "outcome_session (Raised e s) = s"

fun app_result_state :: "app_result \<Rightarrow> app_state" where
  "app_result_state (Finished st) = st"
| "app_result_state (Stopped st) = st"
| "app_result_state (Rerun st) = st"
| "app_result_state (Aborted e st) = st"

text \<open>A stored value within the bound [0, 1].\<close>

definition in_unit :: "pyval option \<Rightarrow> bool" where
  "in_unit v = (case v of Some (PFloat (Fin q)) \<Rightarrow> 0 \<le> q \<and> q \<le> 1 | _ \<Rightarrow> False)"

text \<open>
  The settings of the terminal front-end as they should always be: the four keys of the
  initial dict and no other, and the three numbers within [0, 1].
\<close>

definition settings_wf :: "pydict \<Rightarrow> bool" where
  "settings_wf d =
     (map fst d = [''stability'', ''similarity_boost'', ''style'', ''use_speaker_boost'']
      \<and> in_unit (map_of d ''stability'')
      \<and> in_unit (map_of d ''similarity_boost'')
      \<and> in_unit (map_of d ''style''))"

subsection \<open>An environment for the examples\<close>

text \<open>
  Python's \<open>float()\<close> on the strings that the examples type at a prompt for a number,
  with the exact value of the double it returns; the examples type no other string
  there. \<open>float("abc")\<close> raises ValueError.
\<close>

definition float_ex :: "string \<Rightarrow> pyfloat option" where
  "float_ex s =
     (if s = ''1.7'' then Some (Fin (7656119366529843 / 4503599627370496))
      else if s = ''0.3'' then Some (Fin (5404319552844595 / 18014398509481984))
      else if s = ''0.9'' then Some (Fin (8106479329266893 / 9007199254740992))
      else if s = ''nan'' then Some NaN
      else None)"

definition voices_ex :: "voice list" where
  "voices_ex =
     [\<lparr>voice_id = ''v1'', name = ''Ann'', category = Some ''premade''\<rparr>,
      \<lparr>voice_id = ''v2'', name = ''Bob'', category = None\<rparr>]"

text \<open>A provider that answers every synthesis call but the second, and always lists two voices.\<close>

definition env_ex :: env where
  "env_ex =
     \<lparr>float_of = float_ex,
      isdigit = ascii_isdigit,
      int_of = ascii_int,
      convert = (\<lambda>k call. if k = 1 then Inl ''quota exceeded'' else Inr ''mp3''),
      get_all = (\<lambda>k. Inr voices_ex),
      platform = Linux,
      player = (\<lambda>k. None),
      write_file = (\<lambda>f. None)\<rparr>"

text \<open>The same with a provider that answers every call.\<close>

definition env_ok :: env where
  "env_ok =
     \<lparr>float_of = float_ex,
      isdigit = ascii_isdigit,
      int_of = ascii_int,
      convert = (\<lambda>k call. Inr ''mp3''),
      get_all = (\<lambda>k. Inr voices_ex),
      platform = Linux,
      player = (\<lambda>k. None),
      write_file = (\<lambda>f. None)\<rparr>"

text \<open>
  A reply of 4301 zeros, one digit more than \<open>int()\<close> converts, and a provider that
  does not answer the catalog call.
\<close>

definition zeros_ex :: string where
  "zeros_ex = replicate 4301 CHR ''0''"

definition env_offline :: env where
  "env_offline = env_ok\<lparr>get_all := (\<lambda>k. Inl ''offline'')\<rparr>"

text \<open>A session at the menu, with the audio of an earlier generation in the temporary file.\<close>

definition ready_ex :: session where
  "ready_ex =
     \<lparr>phrase = ''Hello world'', current_voice = default_voice, settings = default_settings,
      generation_count = 1, audio_file = Some ''earlier mp3'', recordings = [],
      tts_calls = [(''Hello world'', default_voice, default_settings)],
      catalog_calls = 0, plays = 1, out = []\<rparr>"

text \<open>The widgets of the web page as a user leaves them before the first click on Generate.\<close>

definition widgets_ex :: widgets where
  "widgets_ex =
     \<lparr>stability_slider = Fin (1/2), similarity_slider = Fin (3/4), style_slider = Fin 0,
      speed_slider = Fin 1, refresh_btn = False, selected_voice = Some ''Ann (premade)'',
      phrase_text = ''Hello world'', generate_btn = True, regenerate_btn = False,
      save_name_text = [], save_btn = False\<rparr>"

definition app_state_ex :: app_state where
  "app_state_ex =
     \<lparr>session_state = [], app_recordings = [], voices_cache = None, app_tts_calls = [],
      app_catalog_calls = 0, app_out = []\<rparr>"

text \<open>Two states of the web page: with a list cached at time 1000, and after a first fetch at time 5.\<close>

definition cached_ex :: app_state where
  "cached_ex = app_state_ex\<lparr>voices_cache := Some (1000, [(''v1'', ''Ann'', ''premade'')]),
                            app_catalog_calls := 1\<rparr>"

definition fetched_ex :: app_state where
  "fetched_ex =
     app_state_ex\<lparr>app_catalog_calls := 1,
       voices_cache := Some (5, [(''v1'', ''Ann'', ''premade''), (''v2'', ''Bob'', ''unknown'')])\<rparr>"

text \<open>The session a step leads to, whether the program goes on or ends.\<close>

fun result_session :: "result \<Rightarrow> session" where
  "result_session (Continue m s ins) = s"
| "result_session (Done oc) = outcome_session oc"

text \<open>The session once \<open>select_voice\<close> has fetched and printed the list of voices.\<close>

definition listed :: "voice list \<Rightarrow> string \<Rightarrow> session \<Rightarrow> session" where
  "listed voices cur s =
     emit MsgEnterNumber
       (emit (MsgVoiceTable (voice_table voices cur)) (s\<lparr>catalog_calls := catalog_calls s + 1\<rparr>))"

text \<open>The k-th run of the audio player does not raise.\<close>

definition player_ok :: "env \<Rightarrow> nat \<Rightarrow> bool" where
  "player_ok env k = (case platform env of OtherPlatform \<Rightarrow> True | _ \<Rightarrow> player env k = None)"

text \<open>The definitions that evaluate a run on given replies.\<close>

lemmas eval_defs = main_def run.simps step_def generate_step_def menu_step_def attempt_def
  generate_audio_def voice_settings_def play_audio_def initial_session_def emit_def dget_def
  default_settings_def cleanup_def strip_def is_space_def lower_def lower_char_def Let_def
  default_voice_def env_ex_def env_ok_def float_ex_def cmd_play_def cmd_save_def
  cmd_new_phrase_def cmd_voice_def cmd_edit_def edit_settings_def edit_field_def
  print_settings_def select_voice_def get_voices_def voice_table_def voices_ex_def
  ascii_isdigit_def ascii_int_def is_digit_def int_of_digits_def category_of_def

section \<open>Lemmas\<close>

subsection \<open>The clamp\<close>

lemma clamp01_cases:
  "clamp01 x = (case x of NaN \<Rightarrow> Fin 1 | NegInf \<Rightarrow> Fin 0 | PosInf \<Rightarrow> Fin 1
                | Fin q \<Rightarrow> if q < 0 then Fin 0 else if 1 < q then Fin 1 else Fin q)"
  by (cases x) (auto simp: clamp01_def py_min_def py_max_def)

lemma clamp01_spec: "x \<noteq> NaN \<Longrightarrow> clamp01 x = clamp_spec (Fin 0) (Fin 1) x"
  by (cases x) (auto simp: clamp01_def py_min_def py_max_def clamp_spec_def)

lemma in_unit_clamp01: "in_unit (Some (PFloat (clamp01 x)))"
  by (cases x) (auto simp: clamp01_cases in_unit_def)

subsection \<open>The settings stay well-formed\<close>

lemma settings_emit [simp]: "settings (emit m s) = settings s"
  by (simp add: emit_def)

lemma settings_print_settings [simp]: "settings (print_settings s) = settings s"
  by (simp add: print_settings_def)

lemma settings_cleanup [simp]: "settings (cleanup s) = settings s"
  by (simp add: cleanup_def)

lemma settings_wf_update:
  assumes "settings_wf d" and "k \<in> {''stability'', ''similarity_boost'', ''style''}"
  shows "settings_wf (AList.update k (PFloat (clamp01 x)) d)"
proof -
  have keys: "k \<in> set (map fst d)"
    using assms by (auto simp: settings_wf_def)
  have "map fst (AList.update k (PFloat (clamp01 x)) d) = map fst d"
    using keys by (simp add: update_keys)
  then show ?thesis
    using assms in_unit_clamp01 [of x]
    by (auto simp: settings_wf_def update_conv')
qed

lemma edit_field_wf:
  assumes "settings_wf (settings s)" and "k \<in> {''stability'', ''similarity_boost'', ''style''}"
  shows "case edit_field env k s ins of Inl (e, s') \<Rightarrow> settings_wf (settings s')
           | Inr (s', rest) \<Rightarrow> settings_wf (settings s')"
  using assms settings_wf_update [OF assms]
  by (auto simp: edit_field_def Let_def split: option.splits list.splits)

lemma edit_settings_wf:
  assumes "settings_wf (settings s)"
  shows "case edit_settings env s ins of Inl (e, s') \<Rightarrow> settings_wf (settings s')
           | Inr (s', rest) \<Rightarrow> settings_wf (settings s')"
proof -
  let ?s0 = "emit MsgEnterNewValues (print_settings s)"
  have w0: "settings_wf (settings ?s0)" using assms by simp
  note f1 = edit_field_wf [OF w0, where k = "''stability''" and env = env and ins = ins]
  show ?thesis
  proof (cases "edit_field env ''stability'' ?s0 ins")
    case (Inl a)
    then show ?thesis using f1 by (auto simp: edit_settings_def split: prod.splits)
  next
    case (Inr b)
    obtain s1 ins1 where b: "b = (s1, ins1)" by (cases b)
    have w1: "settings_wf (settings s1)" using f1 Inr b by simp
    note f2 = edit_field_wf [OF w1, where k = "''similarity_boost''" and env = env and ins = ins1]
    show ?thesis
    proof (cases "edit_field env ''similarity_boost'' s1 ins1")
      case (Inl a)
      then show ?thesis using f2 Inr b by (auto simp: edit_settings_def split: prod.splits)
    next
      case (Inr c)
      obtain s2 ins2 where c: "c = (s2, ins2)" by (cases c)
      have w2: "settings_wf (settings s2)" using f2 Inr c by simp
      note f3 = edit_field_wf [OF w2, where k = "''style''" and env = env and ins = ins2]
      show ?thesis
        using f3 Inr c \<open>edit_field env ''stability'' ?s0 ins = Inr b\<close> b
        by (auto simp: edit_settings_def split: prod.splits sum.splits)
    qed
  qed
qed

lemma settings_play_audio: "play_audio env s = (r, s') \<Longrightarrow> settings s' = settings s"
  by (auto simp: play_audio_def split: platform.splits)

lemma settings_generate_audio: "generate_audio env t v d s = (r, s') \<Longrightarrow> settings s' = settings s"
  by (auto simp: generate_audio_def Let_def)

lemma settings_attempt: "attempt env s = (r, s') \<Longrightarrow> settings s' = settings s"
  by (auto simp: attempt_def Let_def split: prod.splits sum.splits
      dest!: settings_generate_audio settings_play_audio)

lemma settings_select_voice:
  "case select_voice env cur s ins of Inl (e, s') \<Rightarrow> settings s' = settings s
     | Inr (v, s', rest) \<Rightarrow> settings s' = settings s"
  by (auto simp: select_voice_def get_voices_def Let_def
      split: sum.splits list.splits option.splits)

lemma step_wf:
  assumes "settings_wf (settings s)"
  shows "case step env m s ins of Continue m' s' ins' \<Rightarrow> settings_wf (settings s')
           | Done oc \<Rightarrow> settings_wf (settings (outcome_session oc))"
proof (cases m)
  case Generate
  obtain r s2 where at: "attempt env (s\<lparr>generation_count := generation_count s + 1\<rparr>) = (r, s2)"
    by (cases "attempt env (s\<lparr>generation_count := generation_count s + 1\<rparr>)")
  have "settings s2 = settings s"
    using settings_attempt [OF at] by simp
  then show ?thesis using assms Generate at
    by (auto simp: step_def generate_step_def Let_def split: option.splits list.splits)
next
  case Menu
  show ?thesis
  proof (cases ins)
    case Nil
    then show ?thesis using assms Menu by (simp add: step_def menu_step_def)
  next
    case (Cons c rest)
    have play: "case cmd_play env s rest of Continue m' s' ins' \<Rightarrow> settings_wf (settings s')
           | Done oc \<Rightarrow> settings_wf (settings (outcome_session oc))"
      using assms
      by (auto simp: cmd_play_def split: prod.splits option.splits dest!: settings_play_audio)
    have save: "case cmd_save env s rest of Continue m' s' ins' \<Rightarrow> settings_wf (settings s')
           | Done oc \<Rightarrow> settings_wf (settings (outcome_session oc))"
      using assms by (auto simp: cmd_save_def Let_def split: list.splits option.splits)
    have new: "case cmd_new_phrase s rest of Continue m' s' ins' \<Rightarrow> settings_wf (settings s')
           | Done oc \<Rightarrow> settings_wf (settings (outcome_session oc))"
      using assms by (auto simp: cmd_new_phrase_def Let_def split: list.splits)
    have voice: "case cmd_voice env s rest of Continue m' s' ins' \<Rightarrow> settings_wf (settings s')
           | Done oc \<Rightarrow> settings_wf (settings (outcome_session oc))"
      using assms
        settings_select_voice [where env = env and cur = "current_voice s" and s = s and ins = rest]
      by (auto simp: cmd_voice_def split: sum.splits prod.splits)
    have edit: "case cmd_edit env s rest of Continue m' s' ins' \<Rightarrow> settings_wf (settings s')
           | Done oc \<Rightarrow> settings_wf (settings (outcome_session oc))"
      using edit_settings_wf [OF assms, where env = env and ins = rest]
      by (auto simp: cmd_edit_def split: sum.splits prod.splits)
    show ?thesis
      using assms Menu Cons play save new voice edit
      by (simp add: step_def menu_step_def Let_def)
  qed
qed

lemma run_wf:
  "settings_wf (settings s) \<Longrightarrow> settings_wf (settings (outcome_session (run env m s ins)))"
proof (induction env m s ins rule: run.induct)
  case (1 env m s ins)
  show ?case
  proof (cases "step env m s ins")
    case (Continue m' s' ins')
    then have "settings_wf (settings s')"
      using step_wf [OF "1.prems", where env = env and m = m and ins = ins] by simp
    then show ?thesis
      using "1.IH" [OF Continue] Continue by (simp add: run.simps [of env m s ins])
  next
    case (Done oc)
    then show ?thesis
      using step_wf [OF "1.prems", where env = env and m = m and ins = ins]
      by (simp add: run.simps [of env m s ins])
  qed
qed

lemma default_settings_wf: "settings_wf default_settings"
  by (simp add: settings_wf_def default_settings_def in_unit_def)

lemma main_wf: "settings_wf (settings (outcome_session (main env api_key argv recs ins)))"
proof -
  have i: "settings_wf (settings (initial_session recs))"
    by (simp add: initial_session_def default_settings_wf)
  have l: "settings (outcome_session (list_voices env (initial_session recs))) = settings (initial_session recs)"
    by (simp add: list_voices_def get_voices_def split: sum.splits)
  have r: "\<And>p ins'. settings_wf (settings (outcome_session (run env Generate ((initial_session recs)\<lparr>phrase := p\<rparr>) ins')))"
    using i by (intro run_wf) simp
  show ?thesis
    using i l r
    by (auto simp: main_def Let_def split: option.splits list.splits)
qed

subsection \<open>One step of the terminal loop\<close>

lemma select_voice_frame:
  assumes "get_all env (catalog_calls s) = Inr voices"
    and "\<not> isdigit env (strip r) \<or> int_of env (strip r) = Some n"
  shows "\<exists>v s1. select_voice env cur s (r # rest) = Inr (v, s1, rest)
           \<and> phrase s1 = phrase s \<and> settings s1 = settings s \<and> audio_file s1 = audio_file s
           \<and> generation_count s1 = generation_count s \<and> tts_calls s1 = tts_calls s
           \<and> plays s1 = plays s \<and> recordings s1 = recordings s
           \<and> catalog_calls s1 = catalog_calls s + 1
           \<and> (strip r = [] \<longrightarrow> v = cur)
           \<and> (\<not> isdigit env (strip r) \<longrightarrow> v = cur)
           \<and> (isdigit env (strip r) \<and> (n < 1 \<or> int (length voices) < n) \<longrightarrow> v = cur)"
  using assms
  by (auto simp: select_voice_def get_voices_def Let_def emit_def)

lemma generate_step_calls:
  "tts_calls (result_session (generate_step env s ins))
     = tts_calls s @ [(phrase s, current_voice s, voice_settings (settings s))]
   \<and> generation_count (result_session (generate_step env s ins)) = generation_count s + 1"
  by (auto simp: generate_step_def attempt_def generate_audio_def play_audio_def Let_def
      emit_def cleanup_def
      split: sum.splits prod.splits option.splits list.splits platform.splits)

lemma generate_step_success:
  assumes "convert env (length (tts_calls s)) (phrase s, current_voice s, voice_settings (settings s)) = Inr audio"
    and "player_ok env (plays s)"
  shows "\<exists>s2. generate_step env s ins = Continue Menu s2 ins \<and> audio_file s2 = Some audio
           \<and> generation_count s2 = generation_count s + 1"
  using assms
  by (auto simp: generate_step_def attempt_def generate_audio_def play_audio_def Let_def
      emit_def player_ok_def split: platform.splits)

subsection \<open>Listing the voices\<close>

lemma select_voice_calls_once:
  "catalog_calls (case select_voice env cur s ins of Inl (e, s') \<Rightarrow> s' | Inr (v, s', rest) \<Rightarrow> s')
     = catalog_calls s + 1"
  by (auto simp: select_voice_def get_voices_def Let_def emit_def
      split: sum.splits list.splits option.splits)

lemma cached_hit:
  "voices_cache st = Some (t, vs) \<Longrightarrow> now < t + 300 \<Longrightarrow> cached_get_voices env now st = (Inr vs, st)"
  by (simp add: cached_get_voices_def)

lemma fetch_calls_once: "app_catalog_calls (snd (fetch_voices env now st)) = app_catalog_calls st + 1"
  by (simp add: fetch_voices_def Let_def split: sum.splits)

lemma fetch_success_caches:
  "fetch_voices env now st = (Inr vs, st1) \<Longrightarrow> voices_cache st1 = Some (now, vs)"
  by (auto simp: fetch_voices_def Let_def split: sum.splits)

lemma cached_cases:
  "cached_get_voices env now st = (Inr vs, st1) \<Longrightarrow>
     (st1 = st \<and> (\<exists>t. voices_cache st = Some (t, vs)))
     \<or> (app_catalog_calls st1 = app_catalog_calls st + 1 \<and> voices_cache st1 = Some (now, vs))"
  using fetch_calls_once [of env now st] fetch_success_caches [of env now st vs st1]
  by (auto simp: cached_get_voices_def split: option.splits if_splits)

lemma cached_at_most_once:
  "app_catalog_calls (snd (cached_get_voices env now st)) \<le> app_catalog_calls st + 1"
  using fetch_calls_once [of env now st]
  by (auto simp: cached_get_voices_def split: option.splits)

subsection \<open>The reply of 4301 zeros\<close>

lemma zeros_ex_facts:
  "strip zeros_ex = zeros_ex" "zeros_ex \<noteq> []" "ascii_isdigit zeros_ex" "ascii_int zeros_ex = None"
  by (simp_all add: zeros_ex_def strip_def is_space_def ascii_isdigit_def ascii_int_def
      is_digit_def list_all_iff)

subsection \<open>The web page passes the values of its sliders on\<close>

lemma generate_handler_call:
  assumes "generate_btn w \<or> regenerate_btn w" and "strip (phrase_text w) \<noteq> []"
    and "selected_voice w = Some lbl" and "map_of opts lbl = Some vid"
  shows "app_tts_calls (case generate_handler env w opts st of Inl err \<Rightarrow> st | Inr st' \<Rightarrow> st')
     = app_tts_calls st @
         [(strip (phrase_text w), vid,
           [(''stability'', PFloat (stability_slider w)),
            (''similarity_boost'', PFloat (similarity_slider w)),
            (''style'', PFloat (style_slider w)),
            (''use_speaker_boost'', PBool True),
            (''speed'', PFloat (speed_slider w))])]"
  using assms
  by (auto simp: generate_handler_def app_generate_audio_def app_emit_def Let_def
      split: sum.splits)

section \<open>The claims\<close>

text \<open>
  C1 (as amended). For each of the three numbers that the terminal front-end edits
  (stability, similarity_boost, style, each bounded to [0, 1]) and every reply that
  \<open>float()\<close> reads as a number x, the edit stores \<open>max(0.0, min(1.0, x))\<close>. That is
  the clamp of x into [0, 1] for every x but NaN, and 1.0 for NaN; an x of 1 or more,
  such as 1.7, stores 1.0. Whatever the user types, the settings of the terminal
  front-end keep their four keys (there is no speed among them) and the three numbers
  stay within [0, 1].
\<close>

theorem edit_clamps_unit_fields:
  "(k \<in> {''stability'', ''similarity_boost'', ''style''} \<and> settings_wf (settings s)
      \<and> strip r \<noteq> [] \<and> float_of env (strip r) = Some x
      \<longrightarrow> (\<exists>s'. edit_field env k s (r # rest) = Inr (s', rest)
                \<and> map_of (settings s') k = Some (PFloat (clamp01 x))))
   \<and> (x \<noteq> NaN \<longrightarrow> clamp01 x = clamp_spec (Fin 0) (Fin 1) x)
   \<and> (1 \<le> q \<longrightarrow> clamp01 (Fin q) = Fin 1)
   \<and> clamp01 NaN = Fin 1
   \<and> settings_wf (settings (outcome_session (main env api_key argv recs ins)))"
proof -
  have store: "\<exists>s'. edit_field env k s (r # rest) = Inr (s', rest)
                \<and> map_of (settings s') k = Some (PFloat (clamp01 x))"
    if k: "k \<in> {''stability'', ''similarity_boost'', ''style''}" and wf: "settings_wf (settings s)"
      and r: "strip r \<noteq> []" and x: "float_of env (strip r) = Some x"
  proof -
    have "k \<in> set (map fst (settings s))" using k wf by (auto simp: settings_wf_def)
    then obtain cur where "map_of (settings s) k = Some cur"
      by (metis map_of_eq_None_iff not_None_eq set_map)
    then show ?thesis using r x
      by (simp add: edit_field_def Let_def update_conv')
  qed
  have spec: "clamp01 x = clamp_spec (Fin 0) (Fin 1) x" if "x \<noteq> NaN"
    using that by (rule clamp01_spec)
  have top: "clamp01 (Fin q) = Fin 1" if "1 \<le> q"
    using that by (simp add: clamp01_cases)
  have nan: "clamp01 NaN = Fin 1" by (simp add: clamp01_cases)
  show ?thesis using store spec top nan main_wf by blast
qed

theorem edit_clamps_unit_fields_witness:
  "''stability'' \<in> {''stability'', ''similarity_boost'', ''style''}
   \<and> settings_wf (settings (initial_session []))
   \<and> strip ''1.7'' \<noteq> []
   \<and> float_of env_ex (strip ''1.7'') = Some (Fin (7656119366529843 / 4503599627370496))
   \<and> (\<exists>s'. edit_field env_ex ''stability'' (initial_session []) [''1.7''] = Inr (s', [])
          \<and> map_of (settings s') ''stability'' = Some (PFloat (Fin 1)))
   \<and> Fin (7656119366529843 / 4503599627370496) \<noteq> NaN
   \<and> clamp_spec (Fin 0) (Fin 1) (Fin (7656119366529843 / 4503599627370496)) = Fin 1
   \<and> (1::rat) \<le> 7656119366529843 / 4503599627370496
   \<and> settings_wf (settings (outcome_session
        (main env_ex (Some ''key'') [''main.py''] [] [''Hello world'', ''e'', ''1.7'', [], ''nan''])))"
proof -
  have a: "''stability'' \<in> {''stability'', ''similarity_boost'', ''style''}" by simp
  have b: "settings_wf (settings (initial_session []))"
    by (simp add: initial_session_def default_settings_wf)
  have c: "strip ''1.7'' \<noteq> []" by (simp add: strip_def is_space_def)
  have d: "float_of env_ex (strip ''1.7'') = Some (Fin (7656119366529843 / 4503599627370496))"
    by (simp add: strip_def is_space_def env_ex_def float_ex_def)
  have e: "(1::rat) \<le> 7656119366529843 / 4503599627370496" by simp
  have f: "clamp01 (Fin (7656119366529843 / 4503599627370496)) = Fin 1"
    by (simp add: clamp01_cases)
  note t = edit_clamps_unit_fields [of "''stability''" "initial_session []" "''1.7''" env_ex
        "Fin (7656119366529843 / 4503599627370496)" "[]" "7656119366529843 / 4503599627370496"
        "Some ''key''" "[''main.py'']" "[]" "[''Hello world'', ''e'', ''1.7'', [], ''nan'']"]
  from t a b c d
  have "\<exists>s'. edit_field env_ex ''stability'' (initial_session []) [''1.7''] = Inr (s', [])
          \<and> map_of (settings s') ''stability''
              = Some (PFloat (clamp01 (Fin (7656119366529843 / 4503599627370496))))"
    by blast
  then have g: "\<exists>s'. edit_field env_ex ''stability'' (initial_session []) [''1.7''] = Inr (s', [])
          \<and> map_of (settings s') ''stability'' = Some (PFloat (Fin 1))"
    unfolding f .
  from t f have h: "clamp_spec (Fin 0) (Fin 1) (Fin (7656119366529843 / 4503599627370496)) = Fin 1"
    by simp
  from t have i: "settings_wf (settings (outcome_session
        (main env_ex (Some ''key'') [''main.py''] [] [''Hello world'', ''e'', ''1.7'', [], ''nan''])))"
    by blast
  show ?thesis
    using a b c d e g h i by simp
qed

text \<open>
  C1 as stated fails: no operation stores 0.7 for a speed of 0.3. After the edit dialogue
  has read 0.3 three times the settings hold 0.3 for the three numbers and no speed.
\<close>

theorem edit_settings_stores_no_speed:
  "(case edit_settings env_ex (initial_session []) [''0.3'', ''0.3'', ''0.3''] of
      Inl err \<Rightarrow> None | Inr (s', rest) \<Rightarrow> Some (settings s'))
   = Some [(''stability'', PFloat (Fin (5404319552844595 / 18014398509481984))),
           (''similarity_boost'', PFloat (Fin (5404319552844595 / 18014398509481984))),
           (''style'', PFloat (Fin (5404319552844595 / 18014398509481984))),
           (''use_speaker_boost'', PBool True)]
   \<and> map_of [(''stability'', PFloat (Fin (5404319552844595 / 18014398509481984))),
           (''similarity_boost'', PFloat (Fin (5404319552844595 / 18014398509481984))),
           (''style'', PFloat (Fin (5404319552844595 / 18014398509481984))),
           (''use_speaker_boost'', PBool True)] ''speed'' = None"
  by (simp add: edit_settings_def edit_field_def initial_session_def default_settings_def
      print_settings_def emit_def Let_def strip_def is_space_def env_ex_def float_ex_def
      clamp01_cases)

text \<open>
  C2 (as amended). What the session keeps of a generation is the audio and, in the web
  front-end, the trimmed phrase of the request: a successful generation stores both
  together in \<open>st.session_state\<close> (the audio being the provider's answer to that
  phrase, the selected voice and the values of the sliders), and a run of the page
  without a click on Generate or Regenerate, whatever the phrase, the voice and the
  sliders have been changed to, and every save leave them as they are. In the terminal
  front-end a successful attempt writes the provider's answer to the phrase, voice and
  settings of the session into the temporary file and leaves these three as they are.
  Neither front-end stores the voice id or the parameters with the audio.
\<close>

theorem artifact_stored_with_phrase_only:
  "((generate_btn w \<or> regenerate_btn w) \<and> strip (phrase_text w) \<noteq> []
      \<and> selected_voice w = Some lbl \<and> map_of opts lbl = Some vid
      \<and> convert env (length (app_tts_calls st))
           (strip (phrase_text w), vid,
            [(''stability'', PFloat (stability_slider w)),
             (''similarity_boost'', PFloat (similarity_slider w)),
             (''style'', PFloat (style_slider w)),
             (''use_speaker_boost'', PBool True),
             (''speed'', PFloat (speed_slider w))]) = Inr audio
      \<longrightarrow> (\<exists>st'. generate_handler env w opts st = Inr st'
                \<and> map_of (session_state st') ''audio_data'' = Some (SBytes audio)
                \<and> map_of (session_state st') ''last_phrase'' = Some (SStr (strip (phrase_text w)))
                \<and> set (map fst (session_state st'))
                    = set (map fst (session_state st)) \<union> {''audio_data'', ''last_phrase''}))
   \<and> (\<not> generate_btn w \<and> \<not> regenerate_btn w \<longrightarrow> generate_handler env w opts st = Inr st)
   \<and> session_state (case save_handler env w st of Inl err \<Rightarrow> st | Inr st' \<Rightarrow> st')
       = session_state st
   \<and> (convert env (length (tts_calls s)) (phrase s, current_voice s, voice_settings (settings s))
         = Inr audio
      \<longrightarrow> audio_file (snd (attempt env s)) = Some audio
          \<and> phrase (snd (attempt env s)) = phrase s
          \<and> current_voice (snd (attempt env s)) = current_voice s
          \<and> settings (snd (attempt env s)) = settings s)"
proof (intro conjI impI)
  assume h: "(generate_btn w \<or> regenerate_btn w) \<and> strip (phrase_text w) \<noteq> []
      \<and> selected_voice w = Some lbl \<and> map_of opts lbl = Some vid
      \<and> convert env (length (app_tts_calls st))
           (strip (phrase_text w), vid,
            [(''stability'', PFloat (stability_slider w)),
             (''similarity_boost'', PFloat (similarity_slider w)),
             (''style'', PFloat (style_slider w)),
             (''use_speaker_boost'', PBool True),
             (''speed'', PFloat (speed_slider w))]) = Inr audio"
  let ?st1 = "st\<lparr>app_tts_calls := app_tts_calls st @
                 [(strip (phrase_text w), vid,
                   [(''stability'', PFloat (stability_slider w)),
                    (''similarity_boost'', PFloat (similarity_slider w)),
                    (''style'', PFloat (style_slider w)),
                    (''use_speaker_boost'', PBool True),
                    (''speed'', PFloat (speed_slider w))])]\<rparr>"
  let ?st' = "?st1\<lparr>session_state :=
                 AList.update ''last_phrase'' (SStr (strip (phrase_text w)))
                   (AList.update ''audio_data'' (SBytes audio) (session_state ?st1))\<rparr>"
  have g: "generate_handler env w opts st = Inr ?st'"
    using h by (auto simp: generate_handler_def app_generate_audio_def Let_def)
  have k: "set (map fst (session_state ?st'))
             = set (map fst (session_state st)) \<union> {''audio_data'', ''last_phrase''}"
    by (auto simp: update_keys)
  have m: "map_of (session_state ?st') ''audio_data'' = Some (SBytes audio)"
      "map_of (session_state ?st') ''last_phrase'' = Some (SStr (strip (phrase_text w)))"
    by (simp_all add: update_conv')
  show "\<exists>st'. generate_handler env w opts st = Inr st'
                \<and> map_of (session_state st') ''audio_data'' = Some (SBytes audio)
                \<and> map_of (session_state st') ''last_phrase'' = Some (SStr (strip (phrase_text w)))
                \<and> set (map fst (session_state st'))
                    = set (map fst (session_state st)) \<union> {''audio_data'', ''last_phrase''}"
    by (rule exI [of _ ?st']) (intro conjI g m k)
next
  assume "\<not> generate_btn w \<and> \<not> regenerate_btn w"
  then show "generate_handler env w opts st = Inr st"
    by (simp add: generate_handler_def)
next
  show "session_state (case save_handler env w st of Inl err \<Rightarrow> st | Inr st' \<Rightarrow> st')
       = session_state st"
    by (auto simp: save_handler_def save_recording_def app_emit_def
        split: option.splits ssval.splits sum.splits)
next
  assume c: "convert env (length (tts_calls s)) (phrase s, current_voice s, voice_settings (settings s))
         = Inr audio"
  show "audio_file (snd (attempt env s)) = Some audio"
    using c by (simp add: attempt_def generate_audio_def play_audio_def Let_def emit_def
        split: platform.splits)
  show "phrase (snd (attempt env s)) = phrase s"
    using c by (simp add: attempt_def generate_audio_def play_audio_def Let_def emit_def
        split: platform.splits)
  show "current_voice (snd (attempt env s)) = current_voice s"
    using c by (simp add: attempt_def generate_audio_def play_audio_def Let_def emit_def
        split: platform.splits)
  show "settings (snd (attempt env s)) = settings s"
    using c by (simp add: attempt_def generate_audio_def play_audio_def Let_def emit_def
        split: platform.splits)
qed

theorem artifact_stored_with_phrase_only_witness:
  "(generate_btn widgets_ex \<or> regenerate_btn widgets_ex)
   \<and> strip (phrase_text widgets_ex) \<noteq> []
   \<and> selected_voice widgets_ex = Some ''Ann (premade)''
   \<and> map_of [(''Ann (premade)'', ''v1''), (''Bob (unknown)'', ''v2'')] ''Ann (premade)'' = Some ''v1''
   \<and> convert env_ok (length (app_tts_calls app_state_ex))
         (strip (phrase_text widgets_ex), ''v1'',
          [(''stability'', PFloat (stability_slider widgets_ex)),
           (''similarity_boost'', PFloat (similarity_slider widgets_ex)),
           (''style'', PFloat (style_slider widgets_ex)),
           (''use_speaker_boost'', PBool True),
           (''speed'', PFloat (speed_slider widgets_ex))]) = Inr ''mp3''
   \<and> (\<exists>st'. generate_handler env_ok widgets_ex
               [(''Ann (premade)'', ''v1''), (''Bob (unknown)'', ''v2'')] app_state_ex = Inr st'
          \<and> map_of (session_state st') ''audio_data'' = Some (SBytes ''mp3'')
          \<and> map_of (session_state st') ''last_phrase'' = Some (SStr ''Hello world''))
   \<and> \<not> generate_btn (widgets_ex\<lparr>generate_btn := False, phrase_text := ''Edited''\<rparr>)
   \<and> \<not> regenerate_btn (widgets_ex\<lparr>generate_btn := False, phrase_text := ''Edited''\<rparr>)
   \<and> generate_handler env_ok (widgets_ex\<lparr>generate_btn := False, phrase_text := ''Edited''\<rparr>)
        [(''Ann (premade)'', ''v1''), (''Bob (unknown)'', ''v2'')] app_state_ex = Inr app_state_ex
   \<and> convert env_ok (length (tts_calls ready_ex))
        (phrase ready_ex, current_voice ready_ex, voice_settings (settings ready_ex)) = Inr ''mp3''
   \<and> audio_file (snd (attempt env_ok ready_ex)) = Some ''mp3''"
proof -
  let ?opts = "[(''Ann (premade)'', ''v1''), (''Bob (unknown)'', ''v2'')]"
  let ?w2 = "widgets_ex\<lparr>generate_btn := False, phrase_text := ''Edited''\<rparr>"
  have sp: "strip (phrase_text widgets_ex) = ''Hello world''"
    by (simp add: widgets_ex_def strip_def is_space_def)
  have a: "generate_btn widgets_ex \<or> regenerate_btn widgets_ex"
    by (simp add: widgets_ex_def)
  have b: "strip (phrase_text widgets_ex) \<noteq> []" by (simp add: sp)
  have c: "selected_voice widgets_ex = Some ''Ann (premade)''" by (simp add: widgets_ex_def)
  have d: "map_of ?opts ''Ann (premade)'' = Some ''v1''" by simp
  have e: "convert env_ok (length (app_tts_calls app_state_ex))
         (strip (phrase_text widgets_ex), ''v1'',
          [(''stability'', PFloat (stability_slider widgets_ex)),
           (''similarity_boost'', PFloat (similarity_slider widgets_ex)),
           (''style'', PFloat (style_slider widgets_ex)),
           (''use_speaker_boost'', PBool True),
           (''speed'', PFloat (speed_slider widgets_ex))]) = Inr ''mp3''"
    by (simp add: env_ok_def)
  have f: "\<not> generate_btn ?w2" "\<not> regenerate_btn ?w2" by (simp_all add: widgets_ex_def)
  have g: "convert env_ok (length (tts_calls ready_ex))
        (phrase ready_ex, current_voice ready_ex, voice_settings (settings ready_ex)) = Inr ''mp3''"
    by (simp add: env_ok_def)
  note t = artifact_stored_with_phrase_only [where env = env_ok and w = widgets_ex
      and lbl = "''Ann (premade)''" and opts = ?opts and vid = "''v1''" and st = app_state_ex
      and audio = "''mp3''" and s = ready_ex]
  note u = artifact_stored_with_phrase_only [where env = env_ok and w = ?w2
      and opts = ?opts and st = app_state_ex]
  from t [THEN conjunct1, THEN mp, OF conjI [OF a conjI [OF b conjI [OF c conjI [OF d e]]]]]
  have h: "\<exists>st'. generate_handler env_ok widgets_ex ?opts app_state_ex = Inr st'
          \<and> map_of (session_state st') ''audio_data'' = Some (SBytes ''mp3'')
          \<and> map_of (session_state st') ''last_phrase'' = Some (SStr ''Hello world'')"
    unfolding sp by blast
  note i = u [THEN conjunct2, THEN conjunct1, THEN mp, OF conjI [OF f]]
  note j = t [THEN conjunct2, THEN conjunct2, THEN conjunct2, THEN mp, OF g, THEN conjunct1]
  show ?thesis
    by (intro conjI a b c d e h f i g j)
qed

text \<open>
  C2 as stated fails: after the first generation of "Hello world" with the default
  parameters the web session holds the audio and the phrase, and neither the voice "v1"
  nor the parameters that went into the call. In the terminal front-end, a blank reply to
  "Enter new phrase" leaves the session with an empty phrase and the audio of "Hello
  world", of which it holds no record.
\<close>

theorem session_holds_no_voice_or_parameters:
  "(case generate_handler env_ok widgets_ex
           (voice_options [(''v1'', ''Ann'', ''premade''), (''v2'', ''Bob'', ''unknown'')])
           app_state_ex of
      Inl err \<Rightarrow> None
    | Inr st' \<Rightarrow> Some (session_state st', app_tts_calls st'))
   = Some ([(''audio_data'', SBytes ''mp3''), (''last_phrase'', SStr ''Hello world'')],
           [(''Hello world'', ''v1'',
             [(''stability'', PFloat (Fin (1/2))), (''similarity_boost'', PFloat (Fin (3/4))),
              (''style'', PFloat (Fin 0)), (''use_speaker_boost'', PBool True),
              (''speed'', PFloat (Fin 1))])])
   \<and> (case main env_ok (Some ''key'') [''main.py'', ''Hello world''] [] [''n'', '' ''] of
        Raised e s \<Rightarrow> Some (e, phrase s, audio_file s)
      | Exited n s \<Rightarrow> None
      | Returned s \<Rightarrow> None)
     = Some (EOFError, [], Some ''mp3'')"
  by (simp add: eval_defs generate_handler_def app_generate_audio_def voice_options_def
      widgets_ex_def app_state_ex_def)

text \<open>
  C3 (as amended). A regeneration whose provider call fails, in the terminal front-end:
  the error is printed and the program asks "Try again? [y/n]"; the session is then the
  one before the attempt but for the generation counter, the record of provider calls
  and the output, so the temporary file still holds the earlier audio. The session does
  not come back to the menu from there: on the reply y the synthesis is attempted again;
  on any other reply the program ends through its clean-up, which removes the temporary
  file (the recordings stay); without a reply \<open>input()\<close> raises EOFError. In the web
  front-end the failed call shows the error and changes nothing else but the record of
  provider calls: \<open>st.session_state\<close>, the recordings and the cache are as before.
\<close>

theorem failed_synthesis_retry_or_close:
  "(convert env (length (tts_calls s)) (phrase s, current_voice s, voice_settings (settings s)) = Inl e
      \<longrightarrow> (\<exists>s'. generate_step env s ins
                  = (case ins of
                       [] \<Rightarrow> Done (Raised EOFError s')
                     | r # rest \<Rightarrow>
                         if lower (strip r) = ''y'' then Continue Generate s' rest
                         else Done (Returned (cleanup s')))
                \<and> s'\<lparr>generation_count := generation_count s, tts_calls := tts_calls s,
                       out := out s\<rparr> = s
                \<and> audio_file s' = audio_file s \<and> phrase s' = phrase s
                \<and> current_voice s' = current_voice s \<and> settings s' = settings s
                \<and> recordings s' = recordings s
                \<and> tts_calls s'
                    = tts_calls s @ [(phrase s, current_voice s, voice_settings (settings s))]
                \<and> last (out s') = MsgError e
                \<and> audio_file (cleanup s') = None
                \<and> recordings (cleanup s') = recordings s))
   \<and> ((generate_btn w \<or> regenerate_btn w) \<and> strip (phrase_text w) \<noteq> []
        \<and> selected_voice w = Some lbl \<and> map_of opts lbl = Some vid
        \<and> convert env (length (app_tts_calls st))
             (strip (phrase_text w), vid,
              [(''stability'', PFloat (stability_slider w)),
               (''similarity_boost'', PFloat (similarity_slider w)),
               (''style'', PFloat (style_slider w)),
               (''use_speaker_boost'', PBool True),
               (''speed'', PFloat (speed_slider w))]) = Inl e'
      \<longrightarrow> generate_handler env w opts st
            = Inr (st\<lparr>app_tts_calls := app_tts_calls st @
                        [(strip (phrase_text w), vid,
                          [(''stability'', PFloat (stability_slider w)),
                           (''similarity_boost'', PFloat (similarity_slider w)),
                           (''style'', PFloat (style_slider w)),
                           (''use_speaker_boost'', PBool True),
                           (''speed'', PFloat (speed_slider w))])],
                      app_out := app_out st @ [ErrGenerating e']\<rparr>))"
proof (intro conjI impI)
  assume f: "convert env (length (tts_calls s)) (phrase s, current_voice s, voice_settings (settings s)) = Inl e"
  let ?s' = "emit (MsgError e)
      (snd (generate_audio env (phrase s) (current_voice s) (settings s)
              (s\<lparr>generation_count := generation_count s + 1\<rparr>)))"
  have a: "attempt env (s\<lparr>generation_count := generation_count s + 1\<rparr>)
      = (Some e, snd (generate_audio env (phrase s) (current_voice s) (settings s)
              (s\<lparr>generation_count := generation_count s + 1\<rparr>)))"
    using f by (simp add: attempt_def generate_audio_def Let_def emit_def)
  have g: "generate_step env s ins
          = (case ins of
               [] \<Rightarrow> Done (Raised EOFError ?s')
             | r # rest \<Rightarrow>
                 if lower (strip r) = ''y'' then Continue Generate ?s' rest
                 else Done (Returned (cleanup ?s')))"
    using a by (simp add: generate_step_def Let_def split: list.splits)
  have h: "?s'\<lparr>generation_count := generation_count s, tts_calls := tts_calls s,
                       out := out s\<rparr> = s"
    by (simp add: generate_audio_def Let_def emit_def)
  have i: "audio_file ?s' = audio_file s \<and> phrase ?s' = phrase s
      \<and> current_voice ?s' = current_voice s \<and> settings ?s' = settings s
      \<and> recordings ?s' = recordings s
      \<and> tts_calls ?s'
          = tts_calls s @ [(phrase s, current_voice s, voice_settings (settings s))]
      \<and> last (out ?s') = MsgError e
      \<and> audio_file (cleanup ?s') = None
      \<and> recordings (cleanup ?s') = recordings s"
    by (simp add: generate_audio_def Let_def emit_def cleanup_def)
  from g h i show "\<exists>s'. generate_step env s ins
                  = (case ins of
                       [] \<Rightarrow> Done (Raised EOFError s')
                     | r # rest \<Rightarrow>
                         if lower (strip r) = ''y'' then Continue Generate s' rest
                         else Done (Returned (cleanup s')))
                \<and> s'\<lparr>generation_count := generation_count s, tts_calls := tts_calls s,
                       out := out s\<rparr> = s
                \<and> audio_file s' = audio_file s \<and> phrase s' = phrase s
                \<and> current_voice s' = current_voice s \<and> settings s' = settings s
                \<and> recordings s' = recordings s
                \<and> tts_calls s'
                    = tts_calls s @ [(phrase s, current_voice s, voice_settings (settings s))]
                \<and> last (out s') = MsgError e
                \<and> audio_file (cleanup s') = None
                \<and> recordings (cleanup s') = recordings s"
    by blast
next
  assume "(generate_btn w \<or> regenerate_btn w) \<and> strip (phrase_text w) \<noteq> []
        \<and> selected_voice w = Some lbl \<and> map_of opts lbl = Some vid
        \<and> convert env (length (app_tts_calls st))
             (strip (phrase_text w), vid,
              [(''stability'', PFloat (stability_slider w)),
               (''similarity_boost'', PFloat (similarity_slider w)),
               (''style'', PFloat (style_slider w)),
               (''use_speaker_boost'', PBool True),
               (''speed'', PFloat (speed_slider w))]) = Inl e'"
  then show "generate_handler env w opts st
            = Inr (st\<lparr>app_tts_calls := app_tts_calls st @
                        [(strip (phrase_text w), vid,
                          [(''stability'', PFloat (stability_slider w)),
                           (''similarity_boost'', PFloat (similarity_slider w)),
                           (''style'', PFloat (style_slider w)),
                           (''use_speaker_boost'', PBool True),
                           (''speed'', PFloat (speed_slider w))])],
                      app_out := app_out st @ [ErrGenerating e']\<rparr>)"
    by (auto simp: generate_handler_def app_generate_audio_def app_emit_def Let_def)
qed

theorem failed_synthesis_retry_or_close_witness:
  "convert env_ex (length (tts_calls ready_ex))
       (phrase ready_ex, current_voice ready_ex, voice_settings (settings ready_ex))
     = Inl ''quota exceeded''
   \<and> (\<exists>s'. generate_step env_ex ready_ex [''y'', ''q''] = Continue Generate s' [''q'']
          \<and> audio_file s' = Some ''earlier mp3'' \<and> phrase s' = ''Hello world'')
   \<and> (\<exists>s'. generate_step env_ex ready_ex [''n'', ''q''] = Done (Returned (cleanup s'))
          \<and> audio_file s' = Some ''earlier mp3'' \<and> audio_file (cleanup s') = None)
   \<and> (generate_btn widgets_ex \<or> regenerate_btn widgets_ex)
   \<and> strip (phrase_text widgets_ex) \<noteq> []
   \<and> selected_voice widgets_ex = Some ''Ann (premade)''
   \<and> map_of [(''Ann (premade)'', ''v1'')] ''Ann (premade)'' = Some ''v1''
   \<and> convert env_ex (length (app_tts_calls (app_state_ex\<lparr>app_tts_calls := [(''a'', ''v1'', [])],
                                 session_state := [(''audio_data'', SBytes ''earlier mp3'')]\<rparr>)))
         (strip (phrase_text widgets_ex), ''v1'',
          [(''stability'', PFloat (stability_slider widgets_ex)),
           (''similarity_boost'', PFloat (similarity_slider widgets_ex)),
           (''style'', PFloat (style_slider widgets_ex)),
           (''use_speaker_boost'', PBool True),
           (''speed'', PFloat (speed_slider widgets_ex))]) = Inl ''quota exceeded''
   \<and> (\<exists>st'. generate_handler env_ex widgets_ex [(''Ann (premade)'', ''v1'')]
               (app_state_ex\<lparr>app_tts_calls := [(''a'', ''v1'', [])],
                                 session_state := [(''audio_data'', SBytes ''earlier mp3'')]\<rparr>) = Inr st'
          \<and> session_state st' = [(''audio_data'', SBytes ''earlier mp3'')]
          \<and> app_out st' = [ErrGenerating ''quota exceeded''])"
proof -
  let ?st = "app_state_ex\<lparr>app_tts_calls := [(''a'', ''v1'', [])],
                                 session_state := [(''audio_data'', SBytes ''earlier mp3'')]\<rparr>"
  have a: "convert env_ex (length (tts_calls ready_ex))
       (phrase ready_ex, current_voice ready_ex, voice_settings (settings ready_ex))
     = Inl ''quota exceeded''"
    by (simp add: env_ex_def ready_ex_def)
  have b: "(generate_btn widgets_ex \<or> regenerate_btn widgets_ex)
     \<and> strip (phrase_text widgets_ex) \<noteq> []
     \<and> selected_voice widgets_ex = Some ''Ann (premade)''
     \<and> map_of [(''Ann (premade)'', ''v1'')] ''Ann (premade)'' = Some ''v1''"
    by (simp add: widgets_ex_def strip_def is_space_def)
  have c: "convert env_ex (length (app_tts_calls ?st))
         (strip (phrase_text widgets_ex), ''v1'',
          [(''stability'', PFloat (stability_slider widgets_ex)),
           (''similarity_boost'', PFloat (similarity_slider widgets_ex)),
           (''style'', PFloat (style_slider widgets_ex)),
           (''use_speaker_boost'', PBool True),
           (''speed'', PFloat (speed_slider widgets_ex))]) = Inl ''quota exceeded''"
    by (simp add: env_ex_def app_state_ex_def)
  note t = failed_synthesis_retry_or_close [where env = env_ex and s = ready_ex
      and e = "''quota exceeded''" and ins = "[''y'', ''q'']" and w = widgets_ex
      and lbl = "''Ann (premade)''" and opts = "[(''Ann (premade)'', ''v1'')]" and vid = "''v1''"
      and st = ?st and e' = "''quota exceeded''"]
  note u = failed_synthesis_retry_or_close [where env = env_ex and s = ready_ex
      and e = "''quota exceeded''" and ins = "[''n'', ''q'']" and w = widgets_ex
      and lbl = "''Ann (premade)''" and opts = "[(''Ann (premade)'', ''v1'')]" and vid = "''v1''"
      and st = ?st and e' = "''quota exceeded''"]
  from t a have d: "\<exists>s'. generate_step env_ex ready_ex [''y'', ''q''] = Continue Generate s' [''q'']
          \<and> audio_file s' = Some ''earlier mp3'' \<and> phrase s' = ''Hello world''"
    by (auto simp: strip_def is_space_def lower_def lower_char_def ready_ex_def)
  from u a have d': "\<exists>s'. generate_step env_ex ready_ex [''n'', ''q''] = Done (Returned (cleanup s'))
          \<and> audio_file s' = Some ''earlier mp3'' \<and> audio_file (cleanup s') = None"
    by (auto simp: strip_def is_space_def lower_def lower_char_def ready_ex_def)
  from t b c have e: "\<exists>st'. generate_handler env_ex widgets_ex [(''Ann (premade)'', ''v1'')] ?st = Inr st'
          \<and> session_state st' = [(''audio_data'', SBytes ''earlier mp3'')]
          \<and> app_out st' = [ErrGenerating ''quota exceeded'']"
    by (auto simp: app_state_ex_def)
  show ?thesis using a b c d d' e by simp
qed

text \<open>
  C3 as stated fails in the terminal front-end: at the menu with the audio of generation
  1 in the temporary file, a regeneration that fails followed by the reply n ends the
  program with the file removed and the counter at 2; the replies s, keep and q that
  follow are never read, so nothing is saved.
\<close>

theorem failed_regeneration_closes_session:
  "(case run env_ex Menu ready_ex [''r'', ''n'', ''s'', ''keep'', ''q''] of
      Returned s \<Rightarrow> Some (audio_file s, recordings s, generation_count s)
    | Exited n s \<Rightarrow> None
    | Raised e s \<Rightarrow> None)
   = Some (None, [], 2)
   \<and> audio_file ready_ex = Some ''earlier mp3'' \<and> generation_count ready_ex = 1"
  by (simp add: eval_defs ready_ex_def)

text \<open>
  C4. The counter is reset by a new phrase and incremented at the head of the loop,
  before the \<open>try\<close>; a failed attempt that the user retries passes the head again. With
  a provider that fails on the second call, "Hello", regenerate, retry announces
  generations 1 and 3; and "Hello", new phrase "Bye" (whose first attempt fails), retry
  announces the first audio of "Bye" as generation 2.
\<close>

theorem numbering_skips_failed_attempt:
  "out (outcome_session (main env_ex (Some ''key'') [''main.py'', ''Hello''] [] [''r'', ''y'', ''q'']))
     = [MsgGenerating ''Hello'' default_voice (PFloat (Fin (1/2))) (PFloat (Fin (3/4))) (PFloat (Fin 0)),
        MsgPlaying 1, MsgOptions, MsgRegenerating,
        MsgGenerating ''Hello'' default_voice (PFloat (Fin (1/2))) (PFloat (Fin (3/4))) (PFloat (Fin 0)),
        MsgError ''quota exceeded'',
        MsgGenerating ''Hello'' default_voice (PFloat (Fin (1/2))) (PFloat (Fin (3/4))) (PFloat (Fin 0)),
        MsgPlaying 3, MsgOptions, MsgGoodbye]
   \<and> out (outcome_session (main env_ex (Some ''key'') [''main.py'', ''Hello''] [] [''n'', ''Bye'', ''y'', ''q'']))
     = [MsgGenerating ''Hello'' default_voice (PFloat (Fin (1/2))) (PFloat (Fin (3/4))) (PFloat (Fin 0)),
        MsgPlaying 1, MsgOptions,
        MsgGenerating ''Bye'' default_voice (PFloat (Fin (1/2))) (PFloat (Fin (3/4))) (PFloat (Fin 0)),
        MsgError ''quota exceeded'',
        MsgGenerating ''Bye'' default_voice (PFloat (Fin (1/2))) (PFloat (Fin (3/4))) (PFloat (Fin 0)),
        MsgPlaying 2, MsgOptions, MsgGoodbye]"
  by (simp add: eval_defs)

text \<open>
  C5. A phrase given on the command line is neither trimmed nor checked: the phrase of
  two spaces is sent to the provider. A blank reply to "Enter new phrase" is refused
  with a message but has already replaced the phrase, so that the next regeneration
  sends the empty phrase. The first prompt of main.py and the web page do check: a blank
  phrase there makes no call.
\<close>

theorem blank_phrase_reaches_provider:
  "map fst (tts_calls (outcome_session (main env_ex (Some ''key'') [''main.py'', ''  ''] [] [''q''])))
     = [''  '']
   \<and> map fst (tts_calls (outcome_session
        (main env_ex (Some ''key'') [''main.py'', ''Hello''] [] [''n'', '' '', ''r'', ''y'', ''q''])))
     = [''Hello'', [], []]
   \<and> tts_calls (outcome_session (main env_ex (Some ''key'') [''main.py''] [] [''  '', ''q''])) = []
   \<and> generate_handler env (w\<lparr>generate_btn := True, phrase_text := ''  ''\<rparr>) opts st
     = Inr (app_emit WarnEnterPhrase st)"
  by (simp add: eval_defs generate_handler_def)

text \<open>
  C6. The edit-settings branch passes every non-empty reply to \<open>float()\<close> outside any
  \<open>try\<close>: the reply "abc" ends the program with a ValueError, the temporary file left
  behind and the settings as they were.
\<close>

theorem edit_non_numeric_raises:
  "(case main env_ex (Some ''key'') [''main.py'', ''Hello''] [] [''e'', ''abc'', ''q''] of
      Raised e s \<Rightarrow> Some (e, audio_file s, settings s)
    | Exited n s \<Rightarrow> None
    | Returned s \<Rightarrow> None)
   = Some (ValueError, Some ''mp3'', default_settings)"
  by (simp add: eval_defs)

text \<open>
  C7. In the terminal front-end a blank name at "Save as" changes nothing and prints
  nothing: the menu goes on as if save had not been chosen. The web page warns ("Enter a
  filename"). Saving under a name writes the file, over the one of that name if any,
  unless the file cannot be created: the OSError then ends the program.
\<close>

theorem terminal_save_blank_name_is_silent:
  "menu_step env s (''s'' # ''  '' # rest) = Continue Menu s rest
   \<and> menu_step env s (''s'' # [] # rest) = Continue Menu s rest
   \<and> save_handler env (w\<lparr>save_btn := True, save_name_text := ''  ''\<rparr>)
        (st\<lparr>session_state := [(''audio_data'', SBytes a)]\<rparr>)
       = Inr (app_emit WarnEnterFilename (st\<lparr>session_state := [(''audio_data'', SBytes a)]\<rparr>))
   \<and> menu_step env (s\<lparr>audio_file := Some a\<rparr>) (''s'' # ''take1'' # rest)
       = (case write_file env ''take1.mp3'' of
            Some e \<Rightarrow> Done (Raised (OSError e) (s\<lparr>audio_file := Some a\<rparr>))
          | None \<Rightarrow>
              Continue Menu
                (emit (MsgSaved ''take1.mp3'')
                   (s\<lparr>audio_file := Some a,
                      recordings := AList.update ''take1.mp3'' a (recordings s)\<rparr>))
                rest)"
  by (simp add: menu_step_def cmd_save_def save_handler_def strip_def is_space_def lower_def
      lower_char_def Let_def split: option.splits)

text \<open>
  C8 (as amended). The terminal front-end keeps no cache: every \<open>get_voices\<close>, and so
  every change-voice command, queries the provider once. In the web front-end
  \<open>get_voices\<close> is cached for 300 seconds: a call within 300 seconds of the fetch
  returns the cached list without a provider call, so that a successful call followed by
  a second one within the window make at most one provider call in total; a call at or
  after expiry, or after the Refresh button has cleared the cache, makes exactly one.
\<close>

theorem voices_cached_in_web_only:
  "catalog_calls (snd (get_voices env s)) = catalog_calls s + 1
   \<and> catalog_calls (case select_voice env cur s ins of
                       Inl (e, s') \<Rightarrow> s' | Inr (v, s', rest) \<Rightarrow> s') = catalog_calls s + 1
   \<and> (voices_cache st = Some (t, vs) \<and> now < t + 300
        \<longrightarrow> cached_get_voices env now st = (Inr vs, st))
   \<and> (cached_get_voices env ta st = (Inr vsa, sta) \<and> tb < ta + 300
        \<longrightarrow> app_catalog_calls (snd (cached_get_voices env tb sta)) \<le> app_catalog_calls st + 1)
   \<and> (cached_get_voices env ta st = (Inr vsa, sta)
        \<and> app_catalog_calls sta = app_catalog_calls st + 1 \<and> tb < ta + 300
        \<longrightarrow> cached_get_voices env tb sta = (Inr vsa, sta))
   \<and> (voices_cache st = Some (t, vs) \<and> t + 300 \<le> now
        \<longrightarrow> app_catalog_calls (snd (cached_get_voices env now st)) = app_catalog_calls st + 1)
   \<and> app_catalog_calls (snd (cached_get_voices env now (clear_voices_cache st)))
       = app_catalog_calls st + 1"
proof (intro conjI impI)
  show "catalog_calls (snd (get_voices env s)) = catalog_calls s + 1"
    by (simp add: get_voices_def)
  show "catalog_calls (case select_voice env cur s ins of
                       Inl (e, s') \<Rightarrow> s' | Inr (v, s', rest) \<Rightarrow> s') = catalog_calls s + 1"
    by (rule select_voice_calls_once)
  show "cached_get_voices env now st = (Inr vs, st)"
    if "voices_cache st = Some (t, vs) \<and> now < t + 300"
    using that by (simp add: cached_hit)
  show "app_catalog_calls (snd (cached_get_voices env tb sta)) \<le> app_catalog_calls st + 1"
    if h: "cached_get_voices env ta st = (Inr vsa, sta) \<and> tb < ta + 300"
  proof -
    from h cached_cases [of env ta st vsa sta]
    consider "sta = st"
      | "app_catalog_calls sta = app_catalog_calls st + 1" "voices_cache sta = Some (ta, vsa)"
      by blast
    then show ?thesis
    proof cases
      case 1
      then show ?thesis using cached_at_most_once [of env tb st] by simp
    next
      case 2
      then have "cached_get_voices env tb sta = (Inr vsa, sta)"
        using h by (simp add: cached_hit)
      then show ?thesis using 2 by simp
    qed
  qed
  show "cached_get_voices env tb sta = (Inr vsa, sta)"
    if h: "cached_get_voices env ta st = (Inr vsa, sta)
        \<and> app_catalog_calls sta = app_catalog_calls st + 1 \<and> tb < ta + 300"
  proof -
    from h cached_cases [of env ta st vsa sta]
    have "voices_cache sta = Some (ta, vsa)" by auto
    then show ?thesis using h by (simp add: cached_hit)
  qed
  show "app_catalog_calls (snd (cached_get_voices env now st)) = app_catalog_calls st + 1"
    if "voices_cache st = Some (t, vs) \<and> t + 300 \<le> now"
    using that fetch_calls_once [of env now st]
    by (simp add: cached_get_voices_def)
  show "app_catalog_calls (snd (cached_get_voices env now (clear_voices_cache st)))
       = app_catalog_calls st + 1"
    using fetch_calls_once [of env now "clear_voices_cache st"]
    by (simp add: cached_get_voices_def clear_voices_cache_def)
qed

theorem voices_cached_in_web_only_witness:
  "voices_cache cached_ex = Some (1000, [(''v1'', ''Ann'', ''premade'')])
   \<and> (1299::rat) < 1000 + 300
   \<and> cached_get_voices env_ok 1299 cached_ex = (Inr [(''v1'', ''Ann'', ''premade'')], cached_ex)
   \<and> (1000::rat) + 300 \<le> 1300
   \<and> app_catalog_calls (snd (cached_get_voices env_ok 1300 cached_ex))
       = app_catalog_calls cached_ex + 1
   \<and> cached_get_voices env_ok 5 app_state_ex
       = (Inr [(''v1'', ''Ann'', ''premade''), (''v2'', ''Bob'', ''unknown'')], fetched_ex)
   \<and> app_catalog_calls fetched_ex = app_catalog_calls app_state_ex + 1
   \<and> (7::rat) < 5 + 300
   \<and> cached_get_voices env_ok 7 fetched_ex
       = (Inr [(''v1'', ''Ann'', ''premade''), (''v2'', ''Bob'', ''unknown'')], fetched_ex)
   \<and> app_catalog_calls (snd (cached_get_voices env_ok 7 fetched_ex))
       \<le> app_catalog_calls app_state_ex + 1"
proof -
  let ?vs = "[(''v1'', ''Ann'', ''premade''), (''v2'', ''Bob'', ''unknown'')]"
  have a: "voices_cache cached_ex = Some (1000, [(''v1'', ''Ann'', ''premade'')])"
    by (simp add: cached_ex_def)
  have b1: "(1299::rat) < 1000 + 300" by simp
  have b2: "(1000::rat) + 300 \<le> 1300" by simp
  have b3: "(7::rat) < 5 + 300" by simp
  have d: "cached_get_voices env_ok 5 app_state_ex = (Inr ?vs, fetched_ex)"
    by (simp add: cached_get_voices_def fetch_voices_def app_state_ex_def env_ok_def voices_ex_def
        category_of_def Let_def fetched_ex_def)
  have e: "app_catalog_calls fetched_ex = app_catalog_calls app_state_ex + 1"
    by (simp add: fetched_ex_def app_state_ex_def)
  note i1 = voices_cached_in_web_only [where env = env_ok and st = cached_ex and t = 1000
      and vs = "[(''v1'', ''Ann'', ''premade'')]" and now = 1299]
  note i2 = voices_cached_in_web_only [where env = env_ok and st = cached_ex and t = 1000
      and vs = "[(''v1'', ''Ann'', ''premade'')]" and now = 1300]
  note i3 = voices_cached_in_web_only [where env = env_ok and st = app_state_ex and ta = 5
      and tb = 7 and vsa = ?vs and sta = fetched_ex]
  note hit = i1 [THEN conjunct2, THEN conjunct2, THEN conjunct1, THEN mp, OF conjI [OF a b1]]
  note expired = i2 [THEN conjunct2, THEN conjunct2, THEN conjunct2, THEN conjunct2,
      THEN conjunct2, THEN conjunct1, THEN mp, OF conjI [OF a b2]]
  note second = i3 [THEN conjunct2, THEN conjunct2, THEN conjunct2, THEN conjunct2,
      THEN conjunct1, THEN mp, OF conjI [OF d conjI [OF e b3]]]
  note total = i3 [THEN conjunct2, THEN conjunct2, THEN conjunct2, THEN conjunct1, THEN mp,
      OF conjI [OF d b3]]
  show ?thesis
    by (intro conjI a b1 b2 b3 d e hit expired second total)
qed

text \<open>
  C8 as stated fails in the terminal front-end: two change-voice commands in a row make
  two provider calls for the list.
\<close>

theorem terminal_lists_voices_uncached:
  "catalog_calls (outcome_session
     (main env_ok (Some ''key'') [''main.py'', ''Hello''] [] [''v'', [], ''v'', [], ''q''])) = 2"
  by (simp add: eval_defs)

text \<open>
  C9. \<open>select_voice\<close> reports an ordinal out of range ("Invalid number, keeping current
  voice.") and keeps the current voice. A reply that is not a number keeps the current
  voice as well, but nothing is printed after the prompt; and a reply of 4301 zeros,
  which \<open>isdigit()\<close> accepts and which is the ordinal 0, makes \<open>int()\<close> raise a
  ValueError that nothing catches: \<open>main\<close> ends there, the temporary file left behind.
\<close>

theorem select_voice_silent_or_raises:
  "(case select_voice env_ok ''v1'' ready_ex [''abc'', ''q''] of
      Inl err \<Rightarrow> None
    | Inr (v, s', rest) \<Rightarrow> Some (v, out s', rest))
   = Some (''v1'',
           [MsgVoiceTable [(1, ''Ann'', ''premade'', True), (2, ''Bob'', ''unknown'', False)],
            MsgEnterNumber],
           [''q''])
   \<and> (case select_voice env_ok ''v1'' ready_ex [''3'', ''q''] of
        Inl err \<Rightarrow> None
      | Inr (v, s', rest) \<Rightarrow> Some (v, out s', rest))
     = Some (''v1'',
           [MsgVoiceTable [(1, ''Ann'', ''premade'', True), (2, ''Bob'', ''unknown'', False)],
            MsgEnterNumber, MsgInvalidNumber],
           [''q''])
   \<and> (case select_voice env_ok ''v1'' ready_ex [zeros_ex, ''q''] of
        Inl (e, s') \<Rightarrow> Some (e, out s')
      | Inr x \<Rightarrow> None)
     = Some (ValueError,
           [MsgVoiceTable [(1, ''Ann'', ''premade'', True), (2, ''Bob'', ''unknown'', False)],
            MsgEnterNumber])
   \<and> (case main env_ok (Some ''key'') [''main.py'', ''Hello''] [] [''v'', zeros_ex, ''q''] of
        Raised e s \<Rightarrow> Some (e, audio_file s)
      | Exited n s \<Rightarrow> None
      | Returned s \<Rightarrow> None)
     = Some (ValueError, Some ''mp3'')"
proof -
  have z: "select_voice env_ok cur s (zeros_ex # rest)
      = Inl (ValueError, listed voices_ex cur s)" for cur s rest
    by (simp add: select_voice_def get_voices_def listed_def env_ok_def zeros_ex_facts Let_def)
  have m: "cmd_voice env_ok s (zeros_ex # rest)
      = Done (Raised ValueError (listed voices_ex (current_voice s) s))" for s rest
    by (simp add: cmd_voice_def z)
  have a: "(case select_voice env_ok ''v1'' ready_ex [''abc'', ''q''] of
      Inl err \<Rightarrow> None
    | Inr (v, s', rest) \<Rightarrow> Some (v, out s', rest))
   = Some (''v1'',
           [MsgVoiceTable [(1, ''Ann'', ''premade'', True), (2, ''Bob'', ''unknown'', False)],
            MsgEnterNumber],
           [''q''])"
    by (simp add: eval_defs ready_ex_def)
  have b: "(case select_voice env_ok ''v1'' ready_ex [''3'', ''q''] of
        Inl err \<Rightarrow> None
      | Inr (v, s', rest) \<Rightarrow> Some (v, out s', rest))
     = Some (''v1'',
           [MsgVoiceTable [(1, ''Ann'', ''premade'', True), (2, ''Bob'', ''unknown'', False)],
            MsgEnterNumber, MsgInvalidNumber],
           [''q''])"
    by (simp add: eval_defs ready_ex_def)
  have c: "(case select_voice env_ok ''v1'' ready_ex [zeros_ex, ''q''] of
        Inl (e, s') \<Rightarrow> Some (e, out s')
      | Inr x \<Rightarrow> None)
     = Some (ValueError,
           [MsgVoiceTable [(1, ''Ann'', ''premade'', True), (2, ''Bob'', ''unknown'', False)],
            MsgEnterNumber])"
    by (simp add: z listed_def emit_def ready_ex_def voice_table_def voices_ex_def category_of_def)
  have d: "(case main env_ok (Some ''key'') [''main.py'', ''Hello''] [] [''v'', zeros_ex, ''q''] of
        Raised e s \<Rightarrow> Some (e, audio_file s)
      | Exited n s \<Rightarrow> None
      | Returned s \<Rightarrow> None)
     = Some (ValueError, Some ''mp3'')"
  proof -
    have e: "convert env_ok k call = Inr ''mp3''" "platform env_ok = Linux"
        "player env_ok k = None" for k call
      by (simp_all add: env_ok_def)
    have v: "lower (strip ''v'') = ''v''"
      by (simp add: strip_def is_space_def lower_def lower_char_def)
    show ?thesis
      by (simp add: main_def run.simps step_def generate_step_def menu_step_def attempt_def
          generate_audio_def play_audio_def initial_session_def emit_def m listed_def
          e v Let_def)
  qed
  show ?thesis by (intro conjI a b c d)
qed

text \<open>
  C10 (as amended). In the terminal front-end every change-voice command during which the
  list of voices arrives and the reply to "Voice #" is read (a reply that \<open>isdigit()\<close>
  accepts being one that \<open>int()\<close> converts) leads to the head of the loop: an empty
  reply, a reply that is not a number and an ordinal out of range all keep the current
  voice, and whatever the reply the next step increments the generation counter by one
  and makes one more synthesis call, for the same phrase and settings and the voice then
  current; when that call and the playback succeed, the temporary file holds the new
  audio.
\<close>

theorem change_voice_regenerates:
  "lower (strip c) = ''v'' \<and> get_all env (catalog_calls s) = Inr voices
   \<and> (\<not> isdigit env (strip r) \<or> int_of env (strip r) = Some n) \<longrightarrow>
    (\<exists>s1. menu_step env s (c # r # rest) = Continue Generate s1 rest
        \<and> phrase s1 = phrase s \<and> settings s1 = settings s \<and> audio_file s1 = audio_file s
        \<and> generation_count s1 = generation_count s \<and> tts_calls s1 = tts_calls s
        \<and> (strip r = [] \<longrightarrow> current_voice s1 = current_voice s)
        \<and> (\<not> isdigit env (strip r) \<longrightarrow> current_voice s1 = current_voice s)
        \<and> (isdigit env (strip r) \<and> (n < 1 \<or> int (length voices) < n)
            \<longrightarrow> current_voice s1 = current_voice s)
        \<and> generation_count (result_session (generate_step env s1 rest)) = generation_count s + 1
        \<and> tts_calls (result_session (generate_step env s1 rest))
            = tts_calls s @ [(phrase s, current_voice s1, voice_settings (settings s))]
        \<and> (\<forall>audio. convert env (length (tts_calls s))
                       (phrase s, current_voice s1, voice_settings (settings s)) = Inr audio
                     \<and> player_ok env (plays s)
              \<longrightarrow> (\<exists>s2. generate_step env s1 rest = Continue Menu s2 rest
                        \<and> audio_file s2 = Some audio
                        \<and> generation_count s2 = generation_count s + 1)))"
proof (intro impI, elim conjE)
  assume c: "lower (strip c) = ''v''" and g: "get_all env (catalog_calls s) = Inr voices"
    and i: "\<not> isdigit env (strip r) \<or> int_of env (strip r) = Some n"
  from select_voice_frame [OF g i, where cur = "current_voice s" and rest = rest]
  obtain v s0 where sv: "select_voice env (current_voice s) s (r # rest) = Inr (v, s0, rest)"
    and fr: "phrase s0 = phrase s" "settings s0 = settings s" "audio_file s0 = audio_file s"
      "generation_count s0 = generation_count s" "tts_calls s0 = tts_calls s" "plays s0 = plays s"
    and keep1: "strip r = [] \<longrightarrow> v = current_voice s"
    and keep2: "\<not> isdigit env (strip r) \<longrightarrow> v = current_voice s"
    and keep3: "isdigit env (strip r) \<and> (n < 1 \<or> int (length voices) < n)
               \<longrightarrow> v = current_voice s"
    by blast
  let ?s1 = "emit MsgRegeneratingVoice (s0\<lparr>current_voice := v\<rparr>)"
  have m: "menu_step env s (c # r # rest) = Continue Generate ?s1 rest"
    using c sv by (simp add: menu_step_def cmd_voice_def Let_def)
  have f1: "phrase ?s1 = phrase s" "settings ?s1 = settings s" "audio_file ?s1 = audio_file s"
      "generation_count ?s1 = generation_count s" "tts_calls ?s1 = tts_calls s"
      "plays ?s1 = plays s" "current_voice ?s1 = v"
    using fr by (simp_all add: emit_def)
  note calls = generate_step_calls [of env ?s1 rest]
  have succ: "\<exists>s2. generate_step env ?s1 rest = Continue Menu s2 rest
                        \<and> audio_file s2 = Some audio
                        \<and> generation_count s2 = generation_count s + 1"
    if "convert env (length (tts_calls s))
          (phrase s, current_voice ?s1, voice_settings (settings s)) = Inr audio"
      and "player_ok env (plays s)" for audio
    using generate_step_success [of env ?s1 audio rest] that f1 by simp
  have k1: "strip r = [] \<longrightarrow> current_voice ?s1 = current_voice s"
    using keep1 by (simp add: emit_def)
  have k2: "\<not> isdigit env (strip r) \<longrightarrow> current_voice ?s1 = current_voice s"
    using keep2 by (simp add: emit_def)
  have k3: "isdigit env (strip r) \<and> (n < 1 \<or> int (length voices) < n)
            \<longrightarrow> current_voice ?s1 = current_voice s"
    using keep3 by (simp add: emit_def)
  have c1: "generation_count (result_session (generate_step env ?s1 rest)) = generation_count s + 1"
    using calls f1 by simp
  have c2: "tts_calls (result_session (generate_step env ?s1 rest))
            = tts_calls s @ [(phrase s, current_voice ?s1, voice_settings (settings s))]"
    using calls f1 by simp
  have su: "\<forall>audio. convert env (length (tts_calls s))
                       (phrase s, current_voice ?s1, voice_settings (settings s)) = Inr audio
                     \<and> player_ok env (plays s)
              \<longrightarrow> (\<exists>s2. generate_step env ?s1 rest = Continue Menu s2 rest
                        \<and> audio_file s2 = Some audio
                        \<and> generation_count s2 = generation_count s + 1)"
    using succ by blast
  show "\<exists>s1. menu_step env s (c # r # rest) = Continue Generate s1 rest
        \<and> phrase s1 = phrase s \<and> settings s1 = settings s \<and> audio_file s1 = audio_file s
        \<and> generation_count s1 = generation_count s \<and> tts_calls s1 = tts_calls s
        \<and> (strip r = [] \<longrightarrow> current_voice s1 = current_voice s)
        \<and> (\<not> isdigit env (strip r) \<longrightarrow> current_voice s1 = current_voice s)
        \<and> (isdigit env (strip r) \<and> (n < 1 \<or> int (length voices) < n)
            \<longrightarrow> current_voice s1 = current_voice s)
        \<and> generation_count (result_session (generate_step env s1 rest)) = generation_count s + 1
        \<and> tts_calls (result_session (generate_step env s1 rest))
            = tts_calls s @ [(phrase s, current_voice s1, voice_settings (settings s))]
        \<and> (\<forall>audio. convert env (length (tts_calls s))
                       (phrase s, current_voice s1, voice_settings (settings s)) = Inr audio
                     \<and> player_ok env (plays s)
              \<longrightarrow> (\<exists>s2. generate_step env s1 rest = Continue Menu s2 rest
                        \<and> audio_file s2 = Some audio
                        \<and> generation_count s2 = generation_count s + 1))"
    by (rule exI [of _ ?s1]) (intro conjI m f1 k1 k2 k3 c1 c2 su)
qed

theorem change_voice_regenerates_witness:
  "lower (strip ''v'') = ''v''
   \<and> get_all env_ok (catalog_calls ready_ex) = Inr voices_ex
   \<and> strip [] = []
   \<and> \<not> isdigit env_ok (strip [])
   \<and> isdigit env_ok (strip ''3'') \<and> int_of env_ok (strip ''3'') = Some 3
   \<and> int (length voices_ex) < 3
   \<and> (\<exists>s1. menu_step env_ok ready_ex [''v'', [], ''q''] = Continue Generate s1 [''q'']
          \<and> current_voice s1 = default_voice
          \<and> (\<exists>s2. generate_step env_ok s1 [''q''] = Continue Menu s2 [''q'']
                 \<and> audio_file s2 = Some ''mp3'' \<and> generation_count s2 = 2))
   \<and> (\<exists>s1. menu_step env_ok ready_ex [''v'', ''3'', ''q''] = Continue Generate s1 [''q'']
          \<and> current_voice s1 = default_voice
          \<and> (\<exists>s2. generate_step env_ok s1 [''q''] = Continue Menu s2 [''q'']
                 \<and> audio_file s2 = Some ''mp3'' \<and> generation_count s2 = 2))"
proof -
  have a: "lower (strip ''v'') = ''v''"
    by (simp add: strip_def is_space_def lower_def lower_char_def)
  have b: "get_all env_ok (catalog_calls ready_ex) = Inr voices_ex"
    by (simp add: env_ok_def)
  have c: "strip [] = []" by (simp add: strip_def)
  have c': "\<not> isdigit env_ok (strip [])"
    by (simp add: strip_def env_ok_def ascii_isdigit_def)
  have d: "isdigit env_ok (strip ''3'')" "int_of env_ok (strip ''3'') = Some 3"
      "int (length voices_ex) < 3"
    by (simp_all add: strip_def is_space_def env_ok_def ascii_isdigit_def ascii_int_def
        is_digit_def int_of_digits_def voices_ex_def)
  have e: "\<And>k call. convert env_ok k call = Inr ''mp3''" by (simp add: env_ok_def)
  have f: "player_ok env_ok (plays ready_ex)" by (simp add: player_ok_def env_ok_def)
  have g: "current_voice ready_ex = default_voice" "generation_count ready_ex + 1 = 2"
    by (simp_all add: ready_ex_def)
  from change_voice_regenerates [where c = "''v''" and env = env_ok and s = ready_ex
      and voices = voices_ex and r = "[]" and rest = "[''q'']" and n = 0] a b c c' e f g
  have h: "\<exists>s1. menu_step env_ok ready_ex [''v'', [], ''q''] = Continue Generate s1 [''q'']
          \<and> current_voice s1 = default_voice
          \<and> (\<exists>s2. generate_step env_ok s1 [''q''] = Continue Menu s2 [''q'']
                 \<and> audio_file s2 = Some ''mp3'' \<and> generation_count s2 = 2)"
    by (metis (no_types, lifting))
  from change_voice_regenerates [where c = "''v''" and env = env_ok and s = ready_ex
      and voices = voices_ex and r = "''3''" and rest = "[''q'']" and n = 3] a b d e f g
  have i: "\<exists>s1. menu_step env_ok ready_ex [''v'', ''3'', ''q''] = Continue Generate s1 [''q'']
          \<and> current_voice s1 = default_voice
          \<and> (\<exists>s2. generate_step env_ok s1 [''q''] = Continue Menu s2 [''q'']
                 \<and> audio_file s2 = Some ''mp3'' \<and> generation_count s2 = 2)"
    by (metis (no_types, lifting))
  show ?thesis using a b c c' d h i by simp
qed

text \<open>
  C10 as stated fails: when the provider does not answer the catalog call, and when
  \<open>int()\<close> raises on the reply, the change-voice command ends the program; no synthesis
  call is made, the counter stays at 1 and the temporary file holds the earlier audio.
\<close>

theorem change_voice_ends_without_synthesis:
  "(case run env_offline Menu ready_ex [''v'', [], ''r'', ''q''] of
      Raised e s \<Rightarrow> Some (e, tts_calls s = tts_calls ready_ex, generation_count s, audio_file s)
    | Exited n s \<Rightarrow> None
    | Returned s \<Rightarrow> None)
   = Some (ProviderError ''offline'', True, 1, Some ''earlier mp3'')
   \<and> (case run env_ok Menu ready_ex [''v'', zeros_ex, ''r'', ''q''] of
        Raised e s \<Rightarrow> Some (e, tts_calls s = tts_calls ready_ex, generation_count s, audio_file s)
      | Exited n s \<Rightarrow> None
      | Returned s \<Rightarrow> None)
     = Some (ValueError, True, 1, Some ''earlier mp3'')"
proof -
  have v: "lower (strip ''v'') = ''v''"
    by (simp add: strip_def is_space_def lower_def lower_char_def)
  have z: "cmd_voice env_ok s (zeros_ex # rest)
      = Done (Raised ValueError (listed voices_ex (current_voice s) s))" for s rest
    by (simp add: cmd_voice_def select_voice_def get_voices_def listed_def env_ok_def
        zeros_ex_facts Let_def)
  have f: "cmd_voice env_offline s ins
      = Done (Raised (ProviderError ''offline'') (s\<lparr>catalog_calls := catalog_calls s + 1\<rparr>))"
    for s ins
    by (simp add: cmd_voice_def select_voice_def get_voices_def env_offline_def)
  have a: "run env_offline Menu ready_ex [''v'', [], ''r'', ''q'']
      = Raised (ProviderError ''offline'') (ready_ex\<lparr>catalog_calls := catalog_calls ready_ex + 1\<rparr>)"
    by (simp add: run.simps step_def menu_step_def v f)
  have b: "run env_ok Menu ready_ex [''v'', zeros_ex, ''r'', ''q'']
      = Raised ValueError (listed voices_ex (current_voice ready_ex) ready_ex)"
    by (simp add: run.simps step_def menu_step_def v z)
  show ?thesis
    unfolding a b by (simp add: listed_def emit_def ready_ex_def)
qed

end
